theory Spec2Isabelle
  imports Complex_Main "HOL-Library.AList" "HOL-Library.Log_Nat"
begin

section \<open>Conventions\<close>

text \<open>
  A Python \<open>str\<close> is modelled as a HOL \<open>string\<close> holding its UTF-8 encoding: equality,
  concatenation, joining and substring replacement of Python strings are the same
  operations on the encodings. The Russian literals of the source are written out byte by
  byte; each definition carries an English gloss. Operations of the Python library that
  look inside the characters of a string (\<open>str.lower\<close>, \<open>difflib.SequenceMatcher\<close>,
  \<open>float\<close>) are parameters of the functions that call them. The similarity of two
  strings is the exact quotient that \<open>ratio()\<close> computes, a rational number, and its
  product with 10 is exact: the rounding of floats is modelled where a float is printed
  (section Floats), not there. A Python
  \<open>int\<close> is unbounded, hence a HOL \<open>int\<close>. A dict
  whose iteration order matters is an association list, written with \<open>map_of\<close> and
  \<open>AList.update\<close> (which replaces the value of an existing key in place and appends a new
  key at the end, as a Python dict does).
\<close>

section \<open>Strings\<close>

definition newline :: string where
  "newline = [CHR 0x0A]"

text \<open>\<open>sep.join(xs)\<close>\<close>

fun join :: "string \<Rightarrow> string list \<Rightarrow> string" where
  "join sep [] = []"
| "join sep [x] = x"
| "join sep (x # y # ys) = x @ sep @ join sep (y # ys)"

text \<open>\<open>str(n)\<close> for a natural number and for an integer.\<close>

definition digit_char :: "nat \<Rightarrow> char" where
  "digit_char d = ''0123456789'' ! d"

fun str_nat :: "nat \<Rightarrow> string" where
  "str_nat n = (if n < 10 then [digit_char n] else str_nat (n div 10) @ [digit_char (n mod 10)])"

declare str_nat.simps [simp del]

definition str_int :: "int \<Rightarrow> string" where
  "str_int i = (if i < 0 then CHR ''-'' # str_nat (nat (- i)) else str_nat (nat i))"

text \<open>
  \<open>s.replace(old, new)\<close> for a non-empty \<open>old\<close>: the occurrences are replaced from left to
  right without overlap. The counter holds the number of bytes of the current occurrence
  that are still to be skipped.
\<close>

fun replace_from :: "string \<Rightarrow> string \<Rightarrow> nat \<Rightarrow> string \<Rightarrow> string" where
  "replace_from old new k [] = []"
| "replace_from old new (Suc k) (c # cs) = replace_from old new k cs"
| "replace_from old new 0 (c # cs) =
     (if take (length old) (c # cs) = old
      then new @ replace_from old new (length old - 1) cs
      else c # replace_from old new 0 cs)"

definition replace :: "string \<Rightarrow> string \<Rightarrow> string \<Rightarrow> string" where
  "replace old new s = replace_from old new 0 s"

text \<open>\<open>int(x)\<close> of a float truncates toward zero.\<close>

definition py_int :: "rat \<Rightarrow> int" where
  "py_int x = (if 0 \<le> x then \<lfloor>x\<rfloor> else \<lceil>x\<rceil>)"

section \<open>Floats\<close>

text \<open>
  A Python float is an IEEE 754 double. A finite double other than 0 is \<open>m * 2 ^ e\<close> for
  integers \<open>m\<close> and \<open>e\<close> with \<open>2 ^ 52 \<le> \<bar>m\<bar> < 2 ^ 53\<close>, and an arithmetic operation returns
  the double nearest to its exact result, a tie going to the even \<open>m\<close>. The floats of
  the model are the rationals that are doubles, and \<open>fl\<close> is that rounding: \<open>binade x\<close> is
  the exponent \<open>b\<close> with \<open>2 ^ b \<le> \<bar>x\<bar> < 2 ^ (b + 1)\<close>, so that the doubles around \<open>x\<close> are the
  multiples of \<open>2 ^ (b - 52)\<close>. The range of the exponent is not modelled (no overflow to
  infinity, no subnormal numbers): the floats of the score report are quotients and
  products of small ints.
\<close>

definition round_half_even :: "rat \<Rightarrow> int" where
  "round_half_even x =
     (let f = \<lfloor>x\<rfloor>; r = x - of_int f
      in if r < 1 / 2 then f else if 1 / 2 < r then f + 1 else if even f then f else f + 1)"

definition binade :: "rat \<Rightarrow> int" where
  "binade x =
     (let (p, q) = quotient_of \<bar>x\<bar>; e0 = bitlen p - bitlen q
      in if 2 powi e0 \<le> \<bar>x\<bar> then e0 else e0 - 1)"

definition fl :: "rat \<Rightarrow> rat" where
  "fl x =
     (if x = 0 then 0
      else (let ulp = 2 powi (binade x - 52)
            in of_int (round_half_even (x / ulp)) * ulp))"

text \<open>
  The true division \<open>a / b\<close> of two ints (the correctly rounded quotient) and the product
  \<open>x * k\<close> of a float and an int (the int is converted to a float first).
\<close>

definition py_truediv :: "int \<Rightarrow> int \<Rightarrow> rat" where
  "py_truediv a b = fl (of_int a / of_int b)"

definition py_mul :: "rat \<Rightarrow> int \<Rightarrow> rat" where
  "py_mul x k = fl (x * fl (of_int k))"

text \<open>
  The format \<open>.1f\<close> of a number, \<open>f"{x:.1f}"\<close>: the decimal with one digit after the point
  that is nearest to the exact value of \<open>x\<close>, a tie going to the even digit.
\<close>

definition format_tenths :: "rat \<Rightarrow> string" where
  "format_tenths x =
     (let t = nat \<bar>round_half_even (x * 10)\<bar>
      in (if x < 0 then ''-'' else []) @ str_nat (t div 10) @ ''.'' @ str_nat (t mod 10))"


section \<open>StateManager (logic/student\_do\_test.py)\<close>

text \<open>
  \<open>context.user_data\<close> holds the key \<open>"state_stack"\<close> (a list of state names, the top
  being its last element) and the key \<open>"state_data"\<close> (a dict from state name to a dict
  from key to value). Both keys are created by the constructor.
\<close>

record 'v user_data =
  state_stack :: "string list"
  state_data :: "string \<rightharpoonup> (string \<rightharpoonup> 'v)"


definition push :: "string \<Rightarrow> 'v user_data \<Rightarrow> 'v user_data" where
  "push state ud = ud\<lparr>state_stack := state_stack ud @ [state]\<rparr>"

text \<open>\<open>pop\<close> returns \<open>None\<close> and leaves the stack alone when the stack is empty.\<close>

definition pop :: "'v user_data \<Rightarrow> string option \<times> 'v user_data" where
  "pop ud =
     (if state_stack ud \<noteq> []
      then (Some (last (state_stack ud)), ud\<lparr>state_stack := butlast (state_stack ud)\<rparr>)
      else (None, ud))"

definition current :: "'v user_data \<Rightarrow> string option" where
  "current ud = (if state_stack ud \<noteq> [] then Some (last (state_stack ud)) else None)"

definition set_data :: "string \<Rightarrow> string \<Rightarrow> 'v \<Rightarrow> 'v user_data \<Rightarrow> 'v user_data" where
  "set_data state key val ud =
     (let sd = (if state_data ud state = None
                then (state_data ud)(state \<mapsto> Map.empty)
                else state_data ud)
      in ud\<lparr>state_data := sd(state \<mapsto> (the (sd state))(key \<mapsto> val))\<rparr>)"

definition get_data :: "string \<Rightarrow> string \<Rightarrow> 'v \<Rightarrow> 'v user_data \<Rightarrow> 'v" where
  "get_data state key dflt ud =
     (case (case state_data ud state of None \<Rightarrow> Map.empty | Some d \<Rightarrow> d) key of
        None \<Rightarrow> dflt
      | Some v \<Rightarrow> v)"

definition clear_data :: "'v user_data \<Rightarrow> 'v user_data" where
  "clear_data ud = ud\<lparr>state_data := Map.empty\<rparr>"

definition clear_state_data :: "string \<Rightarrow> 'v user_data \<Rightarrow> 'v user_data" where
  "clear_state_data state ud =
     (if state_data ud state \<noteq> None
      then ud\<lparr>state_data := (state_data ud)(state := None)\<rparr>
      else ud)"

text \<open>A navigation step of a handler: it pushes a state or pops the top one.\<close>

datatype nav = Push string | Pop

fun nav_step :: "nav \<Rightarrow> 'v user_data \<Rightarrow> 'v user_data" where
  "nav_step (Push s) ud = push s ud"
| "nav_step Pop ud = snd (pop ud)"

fun nav_steps :: "nav list \<Rightarrow> 'v user_data \<Rightarrow> 'v user_data" where
  "nav_steps [] ud = ud"
| "nav_steps (n # ns) ud = nav_steps ns (nav_step n ud)"

section \<open>Scoring (StudentTestHandler in logic/student\_do\_test.py)\<close>

text \<open>the default of user_answers.get: "Not answered"\<close>

definition not_answered :: string where
  "not_answered =
    [CHR 0xD0, CHR 0x9D, CHR 0xD0, CHR 0xB5, CHR 0x20, CHR 0xD0, CHR 0xBE, CHR 0xD1,
     CHR 0x82, CHR 0xD0, CHR 0xB2, CHR 0xD0, CHR 0xB5, CHR 0xD1, CHR 0x87, CHR 0xD0,
     CHR 0xB5, CHR 0xD0, CHR 0xBD]"

text \<open>"Comment of the checking model (Grok-3): "\<close>

definition comment_prefix :: string where
  "comment_prefix =
    [CHR 0xD0, CHR 0x9A, CHR 0xD0, CHR 0xBE, CHR 0xD0, CHR 0xBC, CHR 0xD0, CHR 0xBC,
     CHR 0xD0, CHR 0xB5, CHR 0xD0, CHR 0xBD, CHR 0xD1, CHR 0x82, CHR 0xD0, CHR 0xB0,
     CHR 0xD1, CHR 0x80, CHR 0xD0, CHR 0xB8, CHR 0xD0, CHR 0xB9, CHR 0x20, CHR 0xD0,
     CHR 0xBC, CHR 0xD0, CHR 0xBE, CHR 0xD0, CHR 0xB4, CHR 0xD0, CHR 0xB5, CHR 0xD0,
     CHR 0xBB, CHR 0xD0, CHR 0xB8, CHR 0x2D, CHR 0xD0, CHR 0xBF, CHR 0xD1, CHR 0x80,
     CHR 0xD0, CHR 0xBE, CHR 0xD0, CHR 0xB2, CHR 0xD0, CHR 0xB5, CHR 0xD1, CHR 0x80,
     CHR 0xD1, CHR 0x8F, CHR 0xD1, CHR 0x8E, CHR 0xD1, CHR 0x89, CHR 0xD0, CHR 0xB5,
     CHR 0xD0, CHR 0xB3, CHR 0xD0, CHR 0xBE, CHR 0x20, CHR 0x28, CHR 0x47, CHR 0x72,
     CHR 0x6F, CHR 0x6B, CHR 0x2D, CHR 0x33, CHR 0x29, CHR 0x3A, CHR 0x20]"

text \<open>"The answer is close to the correct one, excellent work!"\<close>

definition comment_excellent :: string where
  "comment_excellent =
    [CHR 0xD0, CHR 0x9E, CHR 0xD1, CHR 0x82, CHR 0xD0, CHR 0xB2, CHR 0xD0, CHR 0xB5,
     CHR 0xD1, CHR 0x82, CHR 0x20, CHR 0xD0, CHR 0xB1, CHR 0xD0, CHR 0xBB, CHR 0xD0,
     CHR 0xB8, CHR 0xD0, CHR 0xB7, CHR 0xD0, CHR 0xBE, CHR 0xD0, CHR 0xBA, CHR 0x20,
     CHR 0xD0, CHR 0xBA, CHR 0x20, CHR 0xD0, CHR 0xBF, CHR 0xD1, CHR 0x80, CHR 0xD0,
     CHR 0xB0, CHR 0xD0, CHR 0xB2, CHR 0xD0, CHR 0xB8, CHR 0xD0, CHR 0xBB, CHR 0xD1,
     CHR 0x8C, CHR 0xD0, CHR 0xBD, CHR 0xD0, CHR 0xBE, CHR 0xD0, CHR 0xBC, CHR 0xD1,
     CHR 0x83, CHR 0x2C, CHR 0x20, CHR 0xD0, CHR 0xBE, CHR 0xD1, CHR 0x82, CHR 0xD0,
     CHR 0xBB, CHR 0xD0, CHR 0xB8, CHR 0xD1, CHR 0x87, CHR 0xD0, CHR 0xBD, CHR 0xD0,
     CHR 0xB0, CHR 0xD1, CHR 0x8F, CHR 0x20, CHR 0xD1, CHR 0x80, CHR 0xD0, CHR 0xB0,
     CHR 0xD0, CHR 0xB1, CHR 0xD0, CHR 0xBE, CHR 0xD1, CHR 0x82, CHR 0xD0, CHR 0xB0,
     CHR 0x21]"

text \<open>"The answer is partially correct but needs clarification."\<close>

definition comment_partial :: string where
  "comment_partial =
    [CHR 0xD0, CHR 0x9E, CHR 0xD1, CHR 0x82, CHR 0xD0, CHR 0xB2, CHR 0xD0, CHR 0xB5,
     CHR 0xD1, CHR 0x82, CHR 0x20, CHR 0xD1, CHR 0x87, CHR 0xD0, CHR 0xB0, CHR 0xD1,
     CHR 0x81, CHR 0xD1, CHR 0x82, CHR 0xD0, CHR 0xB8, CHR 0xD1, CHR 0x87, CHR 0xD0,
     CHR 0xBD, CHR 0xD0, CHR 0xBE, CHR 0x20, CHR 0xD0, CHR 0xBF, CHR 0xD1, CHR 0x80,
     CHR 0xD0, CHR 0xB0, CHR 0xD0, CHR 0xB2, CHR 0xD0, CHR 0xB8, CHR 0xD0, CHR 0xBB,
     CHR 0xD1, CHR 0x8C, CHR 0xD0, CHR 0xBD, CHR 0xD1, CHR 0x8B, CHR 0xD0, CHR 0xB9,
     CHR 0x2C, CHR 0x20, CHR 0xD0, CHR 0xBD, CHR 0xD0, CHR 0xBE, CHR 0x20, CHR 0xD1,
     CHR 0x82, CHR 0xD1, CHR 0x80, CHR 0xD0, CHR 0xB5, CHR 0xD0, CHR 0xB1, CHR 0xD1,
     CHR 0x83, CHR 0xD0, CHR 0xB5, CHR 0xD1, CHR 0x82, CHR 0x20, CHR 0xD1, CHR 0x83,
     CHR 0xD1, CHR 0x82, CHR 0xD0, CHR 0xBE, CHR 0xD1, CHR 0x87, CHR 0xD0, CHR 0xBD,
     CHR 0xD0, CHR 0xB5, CHR 0xD0, CHR 0xBD, CHR 0xD0, CHR 0xB8, CHR 0xD0, CHR 0xB9,
     CHR 0x2E]"

text \<open>"The answer has some similarity but needs rework."\<close>

definition comment_some :: string where
  "comment_some =
    [CHR 0xD0, CHR 0x9E, CHR 0xD1, CHR 0x82, CHR 0xD0, CHR 0xB2, CHR 0xD0, CHR 0xB5,
     CHR 0xD1, CHR 0x82, CHR 0x20, CHR 0xD0, CHR 0xB8, CHR 0xD0, CHR 0xBC, CHR 0xD0,
     CHR 0xB5, CHR 0xD0, CHR 0xB5, CHR 0xD1, CHR 0x82, CHR 0x20, CHR 0xD0, CHR 0xBD,
     CHR 0xD0, CHR 0xB5, CHR 0xD0, CHR 0xBA, CHR 0xD0, CHR 0xBE, CHR 0xD1, CHR 0x82,
     CHR 0xD0, CHR 0xBE, CHR 0xD1, CHR 0x80, CHR 0xD0, CHR 0xBE, CHR 0xD0, CHR 0xB5,
     CHR 0x20, CHR 0xD1, CHR 0x81, CHR 0xD1, CHR 0x85, CHR 0xD0, CHR 0xBE, CHR 0xD0,
     CHR 0xB4, CHR 0xD1, CHR 0x81, CHR 0xD1, CHR 0x82, CHR 0xD0, CHR 0xB2, CHR 0xD0,
     CHR 0xBE, CHR 0x2C, CHR 0x20, CHR 0xD0, CHR 0xBD, CHR 0xD0, CHR 0xBE, CHR 0x20,
     CHR 0xD0, CHR 0xBD, CHR 0xD1, CHR 0x83, CHR 0xD0, CHR 0xB6, CHR 0xD0, CHR 0xB4,
     CHR 0xD0, CHR 0xB0, CHR 0xD0, CHR 0xB5, CHR 0xD1, CHR 0x82, CHR 0xD1, CHR 0x81,
     CHR 0xD1, CHR 0x8F, CHR 0x20, CHR 0xD0, CHR 0xB2, CHR 0x20, CHR 0xD0, CHR 0xB4,
     CHR 0xD0, CHR 0xBE, CHR 0xD1, CHR 0x80, CHR 0xD0, CHR 0xB0, CHR 0xD0, CHR 0xB1,
     CHR 0xD0, CHR 0xBE, CHR 0xD1, CHR 0x82, CHR 0xD0, CHR 0xBA, CHR 0xD0, CHR 0xB5,
     CHR 0x2E]"

text \<open>"The answer does not match the correct one, a more precise explanation is needed."\<close>

definition comment_none :: string where
  "comment_none =
    [CHR 0xD0, CHR 0x9E, CHR 0xD1, CHR 0x82, CHR 0xD0, CHR 0xB2, CHR 0xD0, CHR 0xB5,
     CHR 0xD1, CHR 0x82, CHR 0x20, CHR 0xD0, CHR 0xBD, CHR 0xD0, CHR 0xB5, CHR 0x20,
     CHR 0xD1, CHR 0x81, CHR 0xD0, CHR 0xBE, CHR 0xD0, CHR 0xBE, CHR 0xD1, CHR 0x82,
     CHR 0xD0, CHR 0xB2, CHR 0xD0, CHR 0xB5, CHR 0xD1, CHR 0x82, CHR 0xD1, CHR 0x81,
     CHR 0xD1, CHR 0x82, CHR 0xD0, CHR 0xB2, CHR 0xD1, CHR 0x83, CHR 0xD0, CHR 0xB5,
     CHR 0xD1, CHR 0x82, CHR 0x20, CHR 0xD0, CHR 0xBF, CHR 0xD1, CHR 0x80, CHR 0xD0,
     CHR 0xB0, CHR 0xD0, CHR 0xB2, CHR 0xD0, CHR 0xB8, CHR 0xD0, CHR 0xBB, CHR 0xD1,
     CHR 0x8C, CHR 0xD0, CHR 0xBD, CHR 0xD0, CHR 0xBE, CHR 0xD0, CHR 0xBC, CHR 0xD1,
     CHR 0x83, CHR 0x2C, CHR 0x20, CHR 0xD1, CHR 0x82, CHR 0xD1, CHR 0x80, CHR 0xD0,
     CHR 0xB5, CHR 0xD0, CHR 0xB1, CHR 0xD1, CHR 0x83, CHR 0xD0, CHR 0xB5, CHR 0xD1,
     CHR 0x82, CHR 0xD1, CHR 0x81, CHR 0xD1, CHR 0x8F, CHR 0x20, CHR 0xD0, CHR 0xB1,
     CHR 0xD0, CHR 0xBE, CHR 0xD0, CHR 0xBB, CHR 0xD0, CHR 0xB5, CHR 0xD0, CHR 0xB5,
     CHR 0x20, CHR 0xD1, CHR 0x82, CHR 0xD0, CHR 0xBE, CHR 0xD1, CHR 0x87, CHR 0xD0,
     CHR 0xBD, CHR 0xD0, CHR 0xBE, CHR 0xD0, CHR 0xB5, CHR 0x20, CHR 0xD0, CHR 0xBE,
     CHR 0xD0, CHR 0xB1, CHR 0xD1, CHR 0x8A, CHR 0xD1, CHR 0x8F, CHR 0xD1, CHR 0x81,
     CHR 0xD0, CHR 0xBD, CHR 0xD0, CHR 0xB5, CHR 0xD0, CHR 0xBD, CHR 0xD0, CHR 0xB8,
     CHR 0xD0, CHR 0xB5, CHR 0x2E]"

text \<open>"Test results:"\<close>

definition report_header :: string where
  "report_header =
    [CHR 0xF0, CHR 0x9F, CHR 0x93, CHR 0x8A, CHR 0x20, CHR 0xD0, CHR 0xA0, CHR 0xD0,
     CHR 0xB5, CHR 0xD0, CHR 0xB7, CHR 0xD1, CHR 0x83, CHR 0xD0, CHR 0xBB, CHR 0xD1,
     CHR 0x8C, CHR 0xD1, CHR 0x82, CHR 0xD0, CHR 0xB0, CHR 0xD1, CHR 0x82, CHR 0xD1,
     CHR 0x8B, CHR 0x20, CHR 0xD1, CHR 0x82, CHR 0xD0, CHR 0xB5, CHR 0xD1, CHR 0x81,
     CHR 0xD1, CHR 0x82, CHR 0xD0, CHR 0xB0, CHR 0x3A]"

text \<open>"Correct (+10 points)"\<close>

definition status_correct :: string where
  "status_correct =
    [CHR 0xE2, CHR 0x9C, CHR 0x85, CHR 0x20, CHR 0xD0, CHR 0x92, CHR 0xD0, CHR 0xB5,
     CHR 0xD1, CHR 0x80, CHR 0xD0, CHR 0xBD, CHR 0xD0, CHR 0xBE, CHR 0x20, CHR 0x28,
     CHR 0x2B, CHR 0x31, CHR 0x30, CHR 0x20, CHR 0xD0, CHR 0xB1, CHR 0xD0, CHR 0xB0,
     CHR 0xD0, CHR 0xBB, CHR 0xD0, CHR 0xBB, CHR 0xD0, CHR 0xBE, CHR 0xD0, CHR 0xB2,
     CHR 0x29]"

text \<open>"Wrong", newline, "Correct answer: "\<close>

definition status_wrong_1 :: string where
  "status_wrong_1 =
    [CHR 0xE2, CHR 0x9D, CHR 0x8C, CHR 0x20, CHR 0xD0, CHR 0x9D, CHR 0xD0, CHR 0xB5,
     CHR 0xD0, CHR 0xB2, CHR 0xD0, CHR 0xB5, CHR 0xD1, CHR 0x80, CHR 0xD0, CHR 0xBD,
     CHR 0xD0, CHR 0xBE, CHR 0x0A, CHR 0xD0, CHR 0x9F, CHR 0xD1, CHR 0x80, CHR 0xD0,
     CHR 0xB0, CHR 0xD0, CHR 0xB2, CHR 0xD0, CHR 0xB8, CHR 0xD0, CHR 0xBB, CHR 0xD1,
     CHR 0x8C, CHR 0xD0, CHR 0xBD, CHR 0xD1, CHR 0x8B, CHR 0xD0, CHR 0xB9, CHR 0x20,
     CHR 0xD0, CHR 0xBE, CHR 0xD1, CHR 0x82, CHR 0xD0, CHR 0xB2, CHR 0xD0, CHR 0xB5,
     CHR 0xD1, CHR 0x82, CHR 0x3A, CHR 0x20]"

text \<open>newline, "Your answer: "\<close>

definition status_your_answer :: string where
  "status_your_answer =
    [CHR 0x0A, CHR 0xD0, CHR 0x92, CHR 0xD0, CHR 0xB0, CHR 0xD1, CHR 0x88, CHR 0x20,
     CHR 0xD0, CHR 0xBE, CHR 0xD1, CHR 0x82, CHR 0xD0, CHR 0xB2, CHR 0xD0, CHR 0xB5,
     CHR 0xD1, CHR 0x82, CHR 0x3A, CHR 0x20]"

text \<open>"Not answered"\<close>

definition status_not_answered :: string where
  "status_not_answered =
    [CHR 0xE2, CHR 0x9D, CHR 0x8C, CHR 0x20, CHR 0xD0, CHR 0x9D, CHR 0xD0, CHR 0xB5,
     CHR 0x20, CHR 0xD0, CHR 0xBE, CHR 0xD1, CHR 0x82, CHR 0xD0, CHR 0xB2, CHR 0xD0,
     CHR 0xB5, CHR 0xD1, CHR 0x87, CHR 0xD0, CHR 0xB5, CHR 0xD0, CHR 0xBD]"

text \<open>"Grade: "\<close>

definition status_grade :: string where
  "status_grade =
    [CHR 0xF0, CHR 0x9F, CHR 0x93, CHR 0x9D, CHR 0x20, CHR 0xD0, CHR 0x9E, CHR 0xD1,
     CHR 0x86, CHR 0xD0, CHR 0xB5, CHR 0xD0, CHR 0xBD, CHR 0xD0, CHR 0xBA, CHR 0xD0,
     CHR 0xB0, CHR 0x3A, CHR 0x20]"

text \<open>"/10", newline, "Your answer: "\<close>

definition status_grade_of_10 :: string where
  "status_grade_of_10 =
    [CHR 0x2F, CHR 0x31, CHR 0x30, CHR 0x0A, CHR 0xD0, CHR 0x92, CHR 0xD0, CHR 0xB0,
     CHR 0xD1, CHR 0x88, CHR 0x20, CHR 0xD0, CHR 0xBE, CHR 0xD1, CHR 0x82, CHR 0xD0,
     CHR 0xB2, CHR 0xD0, CHR 0xB5, CHR 0xD1, CHR 0x82, CHR 0x3A, CHR 0x20]"

text \<open>"**Question "\<close>

definition block_question :: string where
  "block_question =
    [CHR 0x2A, CHR 0x2A, CHR 0xD0, CHR 0x92, CHR 0xD0, CHR 0xBE, CHR 0xD0, CHR 0xBF,
     CHR 0xD1, CHR 0x80, CHR 0xD0, CHR 0xBE, CHR 0xD1, CHR 0x81, CHR 0x20]"

text \<open>newline, "Final score: "\<close>

definition final_score_label :: string where
  "final_score_label =
    [CHR 0x0A, CHR 0xF0, CHR 0x9F, CHR 0x92, CHR 0xA1, CHR 0x20, CHR 0xD0, CHR 0x98,
     CHR 0xD1, CHR 0x82, CHR 0xD0, CHR 0xBE, CHR 0xD0, CHR 0xB3, CHR 0xD0, CHR 0xBE,
     CHR 0xD0, CHR 0xB2, CHR 0xD1, CHR 0x8B, CHR 0xD0, CHR 0xB9, CHR 0x20, CHR 0xD0,
     CHR 0xB1, CHR 0xD0, CHR 0xB0, CHR 0xD0, CHR 0xBB, CHR 0xD0, CHR 0xBB, CHR 0x3A,
     CHR 0x20]"

text \<open>"This is a preliminary grade. The teacher will announce the final grade."\<close>

definition preliminary_note :: string where
  "preliminary_note =
    [CHR 0xE2, CHR 0x9A, CHR 0xA0, CHR 0x20, CHR 0xD0, CHR 0xAD, CHR 0xD1, CHR 0x82,
     CHR 0xD0, CHR 0xBE, CHR 0x20, CHR 0xD0, CHR 0xBF, CHR 0xD1, CHR 0x80, CHR 0xD0,
     CHR 0xB5, CHR 0xD0, CHR 0xB4, CHR 0xD0, CHR 0xB2, CHR 0xD0, CHR 0xB0, CHR 0xD1,
     CHR 0x80, CHR 0xD0, CHR 0xB8, CHR 0xD1, CHR 0x82, CHR 0xD0, CHR 0xB5, CHR 0xD0,
     CHR 0xBB, CHR 0xD1, CHR 0x8C, CHR 0xD0, CHR 0xBD, CHR 0xD0, CHR 0xB0, CHR 0xD1,
     CHR 0x8F, CHR 0x20, CHR 0xD0, CHR 0xBE, CHR 0xD1, CHR 0x86, CHR 0xD0, CHR 0xB5,
     CHR 0xD0, CHR 0xBD, CHR 0xD0, CHR 0xBA, CHR 0xD0, CHR 0xB0, CHR 0x2E, CHR 0x20,
     CHR 0xD0, CHR 0x98, CHR 0xD1, CHR 0x82, CHR 0xD0, CHR 0xBE, CHR 0xD0, CHR 0xB3,
     CHR 0xD0, CHR 0xBE, CHR 0xD0, CHR 0xB2, CHR 0xD1, CHR 0x83, CHR 0xD1, CHR 0x8E,
     CHR 0x20, CHR 0xD0, CHR 0xBE, CHR 0xD1, CHR 0x86, CHR 0xD0, CHR 0xB5, CHR 0xD0,
     CHR 0xBD, CHR 0xD0, CHR 0xBA, CHR 0xD1, CHR 0x83, CHR 0x20, CHR 0xD1, CHR 0x81,
     CHR 0xD0, CHR 0xBE, CHR 0xD0, CHR 0xBE, CHR 0xD0, CHR 0xB1, CHR 0xD1, CHR 0x89,
     CHR 0xD0, CHR 0xB8, CHR 0xD1, CHR 0x82, CHR 0x20, CHR 0xD1, CHR 0x83, CHR 0xD1,
     CHR 0x87, CHR 0xD0, CHR 0xB8, CHR 0xD1, CHR 0x82, CHR 0xD0, CHR 0xB5, CHR 0xD0,
     CHR 0xBB, CHR 0xD1, CHR 0x8C, CHR 0x2E]"

text \<open>
  \<open>_check_open_answer\<close>. The parameter \<open>ratio a b\<close> stands for
  \<open>SequenceMatcher(None, a, b).ratio()\<close> and \<open>lower\<close> for \<open>str.lower\<close>.
\<close>

definition check_open_answer ::
  "(string \<Rightarrow> string \<Rightarrow> rat) \<Rightarrow> (string \<Rightarrow> string) \<Rightarrow> string \<Rightarrow> string \<Rightarrow> int \<times> string" where
  "check_open_answer ratio lower user_answer correct_answer =
     (let similarity = ratio (lower user_answer) (lower correct_answer);
          score = py_int (similarity * 10);
          score = max 0 (min 10 score);
          comment =
            (if score \<ge> 8 then comment_excellent
             else if score \<ge> 5 then comment_partial
             else if score \<ge> 2 then comment_some
             else comment_none)
      in (score, comment_prefix @ comment))"

text \<open>A question of a stored test, and the test itself (the keys the scoring reads).\<close>

record question =
  qtype :: string
  qtext :: string
  correct_answer :: string
  options :: "string list"
  check_comment :: "string option"

record test =
  test_name :: string
  questions :: "question list"

text \<open>
  What one pass through the body of the loop of \<open>_generate_score_report\<close> computes for a
  question: the status line, the score of the question, the amount its branch adds to
  \<open>total_score\<close>, and the values its branch assigns to \<open>Comment_LLM[str(idx)]\<close>, in order.
\<close>

record graded =
  status :: string
  question_score :: int
  added_to_total :: int
  llm_comments :: "string list"

definition grade_question ::
  "(string \<Rightarrow> string \<Rightarrow> rat) \<Rightarrow> (string \<Rightarrow> string) \<Rightarrow> string \<Rightarrow> question \<Rightarrow> graded" where
  "grade_question ratio lower user_answer q =
     (if qtype q = ''test'' then
        (if user_answer = correct_answer q
         then \<lparr>status = status_correct, question_score = 10, added_to_total = 10,
               llm_comments = []\<rparr>
         else \<lparr>status = status_wrong_1 @ correct_answer q @ status_your_answer @ user_answer,
               question_score = 0, added_to_total = 0, llm_comments = []\<rparr>)
      else
        (if user_answer = not_answered
         then \<lparr>status = status_not_answered, question_score = 0, added_to_total = 0,
               llm_comments = []\<rparr>
         else
           (let (score, comment) = check_open_answer ratio lower user_answer (correct_answer q)
            in \<lparr>status = status_grade @ str_int score @ status_grade_of_10
                          @ user_answer @ newline @ comment,
                 question_score = score, added_to_total = score,
                 llm_comments =
                   comment # (if comment \<noteq> [] then [replace comment_prefix [] comment] else [])\<rparr>)))"

text \<open>The local variables of \<open>_generate_score_report\<close> that the loop updates.\<close>

record report_state =
  report :: "string list"
  total_score :: int
  max_score :: int
  scores :: "(string \<times> int) list"
  Comment_LLM :: "(string \<times> string) list"

text \<open>
  \<open>user_answers.get(idx, not_answered)\<close>, and the block appended to the report: the
  f-string made of \<open>block_question\<close>, \<open>idx + 1\<close>, a colon, two stars, a newline and the
  status.
\<close>

definition get_answer :: "(nat \<rightharpoonup> string) \<Rightarrow> nat \<Rightarrow> string" where
  "get_answer user_answers idx =
     (case user_answers idx of None \<Rightarrow> not_answered | Some a \<Rightarrow> a)"

definition question_block :: "nat \<Rightarrow> string \<Rightarrow> string" where
  "question_block idx st = block_question @ str_nat (idx + 1) @ '':**'' @ newline @ st"

text \<open>The body of the loop for the question at index \<open>idx\<close>.\<close>

definition question_step ::
  "(string \<Rightarrow> string \<Rightarrow> rat) \<Rightarrow> (string \<Rightarrow> string) \<Rightarrow> (nat \<rightharpoonup> string) \<Rightarrow>
     nat \<Rightarrow> question \<Rightarrow> report_state \<Rightarrow> report_state" where
  "question_step ratio lower user_answers idx q st =
     (let user_answer = get_answer user_answers idx;
          g = grade_question ratio lower user_answer q
      in st\<lparr>max_score := max_score st + 10,
             total_score := total_score st + added_to_total g,
             Comment_LLM := fold (AList.update (str_nat idx)) (llm_comments g) (Comment_LLM st),
             scores := AList.update (str_nat idx) (question_score g) (scores st),
             report := report st @ [question_block idx (status g)]\<rparr>)"

fun score_loop ::
  "(string \<Rightarrow> string \<Rightarrow> rat) \<Rightarrow> (string \<Rightarrow> string) \<Rightarrow> (nat \<rightharpoonup> string) \<Rightarrow>
     (nat \<times> question) list \<Rightarrow> report_state \<Rightarrow> report_state" where
  "score_loop ratio lower user_answers [] st = st"
| "score_loop ratio lower user_answers ((idx, q) # rest) st =
     score_loop ratio lower user_answers rest (question_step ratio lower user_answers idx q st)"

text \<open>The list \<open>report\<close> at the end of \<open>_generate_score_report\<close>, before it is joined.\<close>

definition final_line :: "int \<Rightarrow> int \<Rightarrow> string" where
  "final_line tot mx =
     (let percentage = (if mx > 0 then py_mul (py_truediv tot mx) 100 else 0)
      in final_score_label @ str_int tot @ ''/'' @ str_int mx
         @ '' ('' @ format_tenths percentage @ ''%)'')"

definition initial_report_state :: report_state where
  "initial_report_state =
     \<lparr>report = [report_header], total_score = 0, max_score = 0, scores = [], Comment_LLM = []\<rparr>"

definition final_report_state ::
  "(string \<Rightarrow> string \<Rightarrow> rat) \<Rightarrow> (string \<Rightarrow> string) \<Rightarrow> test \<Rightarrow> (nat \<rightharpoonup> string) \<Rightarrow> report_state" where
  "final_report_state ratio lower t user_answers =
     (let st = score_loop ratio lower user_answers (enumerate 0 (questions t)) initial_report_state
      in st\<lparr>report := report st
                        @ [final_line (total_score st) (max_score st), preliminary_note]\<rparr>)"

record score_report =
  report_text :: string
  result_scores :: "(string \<times> int) list"
  result_Comment_LLM :: "(string \<times> string) list"

definition generate_score_report ::
  "(string \<Rightarrow> string \<Rightarrow> rat) \<Rightarrow> (string \<Rightarrow> string) \<Rightarrow> test \<Rightarrow> (nat \<rightharpoonup> string) \<Rightarrow> score_report" where
  "generate_score_report ratio lower t user_answers =
     (let st = final_report_state ratio lower t user_answers
      in \<lparr>report_text = join newline (report st),
          result_scores = scores st,
          result_Comment_LLM = Comment_LLM st\<rparr>)"

text \<open>
  The grading of an open answer as the specification words it: the score is the floor of
  ten times the similarity, clamped to the range from 0 to 10, and the comment is picked
  by the first threshold that the score reaches.
\<close>

definition spec_score :: "rat \<Rightarrow> int" where
  "spec_score sim = max 0 (min 10 \<lfloor>sim * 10\<rfloor>)"

definition spec_band :: "int \<Rightarrow> string" where
  "spec_band score =
     (if score \<ge> 8 then comment_excellent
      else if score \<ge> 5 then comment_partial
      else if score \<ge> 2 then comment_some
      else comment_none)"


section \<open>The appeal window (StudentTestHandler.start\_appeal)\<close>

text \<open>"The appeal period (24 hours) has expired."\<close>

definition appeal_expired_text :: string where
  "appeal_expired_text =
    [CHR 0xE2, CHR 0x9D, CHR 0x8C, CHR 0x20, CHR 0xD0, CHR 0xA1, CHR 0xD1, CHR 0x80,
     CHR 0xD0, CHR 0xBE, CHR 0xD0, CHR 0xBA, CHR 0x20, CHR 0xD0, CHR 0xBF, CHR 0xD0,
     CHR 0xBE, CHR 0xD0, CHR 0xB4, CHR 0xD0, CHR 0xB0, CHR 0xD1, CHR 0x87, CHR 0xD0,
     CHR 0xB8, CHR 0x20, CHR 0xD0, CHR 0xB0, CHR 0xD0, CHR 0xBF, CHR 0xD0, CHR 0xB5,
     CHR 0xD0, CHR 0xBB, CHR 0xD0, CHR 0xBB, CHR 0xD1, CHR 0x8F, CHR 0xD1, CHR 0x86,
     CHR 0xD0, CHR 0xB8, CHR 0xD0, CHR 0xB8, CHR 0x20, CHR 0x28, CHR 0x32, CHR 0x34,
     CHR 0x20, CHR 0xD1, CHR 0x87, CHR 0xD0, CHR 0xB0, CHR 0xD1, CHR 0x81, CHR 0xD0,
     CHR 0xB0, CHR 0x29, CHR 0x20, CHR 0xD0, CHR 0xB8, CHR 0xD1, CHR 0x81, CHR 0xD1,
     CHR 0x82, CHR 0xD1, CHR 0x91, CHR 0xD0, CHR 0xBA, CHR 0x2E]"

text \<open>"Choose a question to appeal (time: "\<close>

definition appeal_select_text :: string where
  "appeal_select_text =
    [CHR 0xF0, CHR 0x9F, CHR 0x94, CHR 0x8D, CHR 0x20, CHR 0xD0, CHR 0x92, CHR 0xD1,
     CHR 0x8B, CHR 0xD0, CHR 0xB1, CHR 0xD0, CHR 0xB5, CHR 0xD1, CHR 0x80, CHR 0xD0,
     CHR 0xB8, CHR 0xD1, CHR 0x82, CHR 0xD0, CHR 0xB5, CHR 0x20, CHR 0xD0, CHR 0xB2,
     CHR 0xD0, CHR 0xBE, CHR 0xD0, CHR 0xBF, CHR 0xD1, CHR 0x80, CHR 0xD0, CHR 0xBE,
     CHR 0xD1, CHR 0x81, CHR 0x20, CHR 0xD0, CHR 0xB4, CHR 0xD0, CHR 0xBB, CHR 0xD1,
     CHR 0x8F, CHR 0x20, CHR 0xD0, CHR 0xB0, CHR 0xD0, CHR 0xBF, CHR 0xD0, CHR 0xB5,
     CHR 0xD0, CHR 0xBB, CHR 0xD0, CHR 0xBB, CHR 0xD1, CHR 0x8F, CHR 0xD1, CHR 0x86,
     CHR 0xD0, CHR 0xB8, CHR 0xD0, CHR 0xB8, CHR 0x20, CHR 0x28, CHR 0xD0, CHR 0xB2,
     CHR 0xD1, CHR 0x80, CHR 0xD0, CHR 0xB5, CHR 0xD0, CHR 0xBC, CHR 0xD1, CHR 0x8F,
     CHR 0x3A, CHR 0x20]"

text \<open>"Question "\<close>

definition button_question :: string where
  "button_question =
    [CHR 0xD0, CHR 0x92, CHR 0xD0, CHR 0xBE, CHR 0xD0, CHR 0xBF, CHR 0xD1, CHR 0x80,
     CHR 0xD0, CHR 0xBE, CHR 0xD1, CHR 0x81, CHR 0x20]"

text \<open>"Back"\<close>

definition button_back :: string where
  "button_back =
    [CHR 0xF0, CHR 0x9F, CHR 0x94, CHR 0x99, CHR 0x20, CHR 0xD0, CHR 0x9D, CHR 0xD0,
     CHR 0xB0, CHR 0xD0, CHR 0xB7, CHR 0xD0, CHR 0xB0, CHR 0xD0, CHR 0xB4]"

text \<open>An inline button (label and callback data); a keyboard is a list of rows.\<close>

record button =
  label :: string
  callback_data :: string

definition create_back_button :: button where
  "create_back_button = \<lparr>label = button_back, callback_data = ''back''\<rparr>"

datatype py_error = KeyError string | IndexError | TypeError | ValueError string

text \<open>
  A \<open>datetime\<close> is the number of microseconds since some origin, a \<open>timedelta\<close> the
  difference of two, and \<open>timedelta.total_seconds()\<close> its millionth part.
\<close>

definition total_seconds :: "int \<Rightarrow> rat" where
  "total_seconds delta = of_int delta / 1000000"

text \<open>What a handler hands back: the message it shows, the state it returns, the session.\<close>

record 'v handled =
  shown_text :: string
  shown_keyboard :: "button list list"
  returned_state :: string
  session_after :: "'v user_data"

text \<open>
  \<open>start_appeal\<close>. \<open>appeal_select\<close> is the constant \<open>STUDENT_APPEAL_SELECT\<close> of the module
  \<open>states\<close>; \<open>now\<close> is \<open>datetime.now()\<close> and \<open>hms\<close> its rendering by
  \<open>strftime("%H:%M:%S")\<close>; \<open>test_completed_at\<close> and \<open>questions\<close> are the values of these
  keys of \<open>context.user_data\<close> (\<open>None\<close> for an absent key), the former as the \<open>datetime\<close>
  that \<open>fromisoformat\<close> reads back from the stored text.
\<close>

definition start_appeal ::
  "string \<Rightarrow> int \<Rightarrow> string \<Rightarrow> int option \<Rightarrow> question list option \<Rightarrow> 'v user_data
     \<Rightarrow> py_error + 'v handled" where
  "start_appeal appeal_select now hms test_completed_at qs ud =
     (if (case test_completed_at of
            None \<Rightarrow> False
          | Some completed_time \<Rightarrow> total_seconds (now - completed_time) > 24 * 3600)
      then Inr \<lparr>shown_text = appeal_expired_text,
                shown_keyboard = [[create_back_button]],
                returned_state = appeal_select,
                session_after = ud\<rparr>
      else
        (case qs of
           None \<Rightarrow> Inl (KeyError ''questions'')
         | Some q \<Rightarrow>
             Inr \<lparr>shown_text = appeal_select_text @ hms @ ''):'',
                  shown_keyboard =
                    map (\<lambda>i. [\<lparr>label = button_question @ str_nat (i + 1),
                               callback_data = ''appeal_'' @ str_nat i\<rparr>]) [0..<length q]
                    @ [[create_back_button]],
                  returned_state = appeal_select,
                  session_after = push appeal_select ud\<rparr>))"

section \<open>Persistence (database.py)\<close>

text \<open>"User "\<close>

definition msg_user :: string where
  "msg_user =
    [CHR 0xD0, CHR 0x9F, CHR 0xD0, CHR 0xBE, CHR 0xD0, CHR 0xBB, CHR 0xD1, CHR 0x8C,
     CHR 0xD0, CHR 0xB7, CHR 0xD0, CHR 0xBE, CHR 0xD0, CHR 0xB2, CHR 0xD0, CHR 0xB0,
     CHR 0xD1, CHR 0x82, CHR 0xD0, CHR 0xB5, CHR 0xD0, CHR 0xBB, CHR 0xD1, CHR 0x8C,
     CHR 0x20]"

text \<open>"Result "\<close>

definition msg_result :: string where
  "msg_result =
    [CHR 0xD0, CHR 0xA0, CHR 0xD0, CHR 0xB5, CHR 0xD0, CHR 0xB7, CHR 0xD1, CHR 0x83,
     CHR 0xD0, CHR 0xBB, CHR 0xD1, CHR 0x8C, CHR 0xD1, CHR 0x82, CHR 0xD0, CHR 0xB0,
     CHR 0xD1, CHR 0x82, CHR 0x20]"

text \<open>" not found"\<close>

definition msg_not_found :: string where
  "msg_not_found =
    [CHR 0x20, CHR 0xD0, CHR 0xBD, CHR 0xD0, CHR 0xB5, CHR 0x20, CHR 0xD0, CHR 0xBD,
     CHR 0xD0, CHR 0xB0, CHR 0xD0, CHR 0xB9, CHR 0xD0, CHR 0xB4, CHR 0xD0, CHR 0xB5,
     CHR 0xD0, CHR 0xBD]"

text \<open>
  The dict a caller passes to \<open>save_appeal\<close>, and an appeal as stored in a result: the
  caller's dict with the key \<open>id\<close> added, and the two keys the teacher's response adds.
\<close>

record appeal_data =
  question_idx :: int
  student_comment :: string
  appeal_status :: string
  timestamp :: string

record appeal =
  appeal_id :: string
  body :: appeal_data
  teacher_comment :: "string option"
  response_timestamp :: "string option"

text \<open>
  A score as Python and JSON have it: a number (an int and a float of the same value
  compare equal), an infinity, or NaN, which \<open>==\<close> finds equal to nothing, itself
  included.
\<close>

datatype pyfloat = Finite rat | PosInf | NegInf | NaN

definition py_eq :: "pyfloat \<Rightarrow> pyfloat \<Rightarrow> bool" where
  "py_eq a b = (a \<noteq> NaN \<and> a = b)"

text \<open>
  A stored result with the keys the modelled code reads; \<open>None\<close> is an absent key.
  The file \<open>results.json\<close> maps a user id to a dict with the key \<open>tests\<close>.
\<close>

record result =
  r_id :: string
  r_test_id :: string
  r_user_id :: "string option"
  r_scores :: "(string \<times> pyfloat) list option"
  r_comments :: "(string \<times> string) list option"
  r_appeals :: "appeal list option"

record user_entry =
  tests :: "result list option"

type_synonym results_data = "(string \<times> user_entry) list"

text \<open>
  The database: the content of \<open>results.json\<close>, the number of times it has been written,
  and what the orchestrator thread has logged.
\<close>

record database =
  results_file :: results_data
  writes :: nat
  error_log :: "py_error list"

text \<open>
  The worker of \<open>_start_orchestrator\<close> running one queued task: an exception of the task
  is caught and logged, and the worker goes on. A task that returns has written the file.
\<close>

definition run_write_task :: "(results_data \<Rightarrow> py_error + results_data) \<Rightarrow> database \<Rightarrow> database" where
  "run_write_task task db =
     (case task (results_file db) of
        Inl e \<Rightarrow> db\<lparr>error_log := error_log db @ [e]\<rparr>
      | Inr data \<Rightarrow> db\<lparr>results_file := data, writes := writes db + 1\<rparr>)"

text \<open>The caller's dict once it carries an id, as it is stored.\<close>

definition stored :: "string \<Rightarrow> appeal_data \<Rightarrow> appeal" where
  "stored i appeal_data =
     \<lparr>appeal_id = i, body = appeal_data, teacher_comment = None, response_timestamp = None\<rparr>"

text \<open>
  The inner loop of \<open>_save_appeal\<close> over the existing appeals: the first appeal for the
  same question is replaced by the new dict, which takes over its id. \<open>None\<close> when the
  loop ends without a match.
\<close>

fun update_existing :: "appeal_data \<Rightarrow> appeal list \<Rightarrow> appeal list option" where
  "update_existing appeal_data [] = None"
| "update_existing appeal_data (existing_appeal # rest) =
     (if question_idx (body existing_appeal) = question_idx appeal_data
      then Some (stored (appeal_id existing_appeal) appeal_data # rest)
      else map_option ((#) existing_appeal) (update_existing appeal_data rest))"

text \<open>What \<open>_save_appeal\<close> does to the list of appeals of the result it found.\<close>

definition upsert :: "string \<Rightarrow> appeal_data \<Rightarrow> appeal list \<Rightarrow> appeal list" where
  "upsert new_uuid appeal_data appeals =
     (case update_existing appeal_data appeals of
        Some appeals' \<Rightarrow> appeals'
      | None \<Rightarrow> appeals @ [stored new_uuid appeal_data])"

definition appeals_or_empty :: "result \<Rightarrow> appeal list" where
  "appeals_or_empty t = (case r_appeals t of None \<Rightarrow> [] | Some a \<Rightarrow> a)"

text \<open>The outer loop over the tests of the user: the first result with the id is changed.\<close>

fun save_in_tests :: "string \<Rightarrow> string \<Rightarrow> appeal_data \<Rightarrow> result list \<Rightarrow> result list option" where
  "save_in_tests new_uuid result_id appeal_data [] = None"
| "save_in_tests new_uuid result_id appeal_data (t # ts) =
     (if r_id t = result_id
      then Some (t\<lparr>r_appeals := Some (upsert new_uuid appeal_data (appeals_or_empty t))\<rparr> # ts)
      else map_option ((#) t) (save_in_tests new_uuid result_id appeal_data ts))"

text \<open>
  The nested function \<open>_save_appeal\<close>, a task for the orchestrator. \<open>new_uuid\<close> is the
  value \<open>str(uuid.uuid4())\<close> would produce.
\<close>

definition save_appeal_task ::
  "string \<Rightarrow> string \<Rightarrow> string \<Rightarrow> appeal_data \<Rightarrow> results_data \<Rightarrow> py_error + results_data" where
  "save_appeal_task new_uuid user_id result_id appeal_data data =
     (case map_of data user_id of
        None \<Rightarrow> Inl (ValueError (msg_user @ user_id @ msg_not_found))
      | Some u \<Rightarrow>
          (case tests u of
             None \<Rightarrow> Inl (ValueError (msg_user @ user_id @ msg_not_found))
           | Some ts \<Rightarrow>
               (case save_in_tests new_uuid result_id appeal_data ts of
                  None \<Rightarrow> Inl (ValueError (msg_result @ result_id @ msg_not_found))
                | Some ts' \<Rightarrow> Inr (AList.update user_id (u\<lparr>tests := Some ts'\<rparr>) data))))"

text \<open>
  \<open>save_appeal\<close> queues the task and waits for the queue to drain. It has no \<open>return\<close> and
  nothing of the task comes back to it: the first component, what the caller receives, is
  always the normal return of \<open>None\<close>.
\<close>

definition save_appeal ::
  "string \<Rightarrow> string \<Rightarrow> string \<Rightarrow> appeal_data \<Rightarrow> database \<Rightarrow> (py_error + unit) \<times> database" where
  "save_appeal new_uuid user_id result_id appeal_data db =
     (Inr (), run_write_task (save_appeal_task new_uuid user_id result_id appeal_data) db)"

text \<open>\<open>save_result\<close>: the result gets a fresh id and an empty list of appeals.\<close>

definition save_result_task ::
  "string \<Rightarrow> string \<Rightarrow> result \<Rightarrow> results_data \<Rightarrow> py_error + results_data" where
  "save_result_task new_uuid user_id result_data data =
     (let data = (if map_of data user_id = None
                  then AList.update user_id \<lparr>tests = Some []\<rparr> data else data)
      in case map_of data user_id of
           None \<Rightarrow> Inl (KeyError user_id)
         | Some u \<Rightarrow>
             (case tests u of
                None \<Rightarrow> Inl (KeyError ''tests'')
              | Some ts \<Rightarrow>
                  Inr (AList.update user_id
                         (u\<lparr>tests := Some (ts @ [result_data\<lparr>r_id := new_uuid,
                                                              r_appeals := Some []\<rparr>])\<rparr>) data)))"

definition save_result :: "string \<Rightarrow> string \<Rightarrow> result \<Rightarrow> database \<Rightarrow> string \<times> database" where
  "save_result new_uuid user_id result_data db =
     (let db' = run_write_task (save_result_task new_uuid user_id result_data) db
      in (if writes db' = writes db then [] else new_uuid, db'))"

text \<open>
  The dict that \<open>StudentTestHandler._save_result\<close> hands to \<open>save_result\<close>: it has no
  key \<open>user_id\<close>, no key \<open>comments\<close>, and the scores of the report.
\<close>

definition new_result_data :: "string \<Rightarrow> (string \<times> int) list \<Rightarrow> result" where
  "new_result_data test_id report_scores =
     \<lparr>r_id = [], r_test_id = test_id, r_user_id = None,
      r_scores = Some (map (\<lambda>(k, v). (k, Finite (of_int v))) report_scores),
      r_comments = None, r_appeals = Some []\<rparr>"

text \<open>\<open>load_student_results\<close>, and the appeals stored for a result of a user.\<close>

definition load_student_results :: "database \<Rightarrow> string \<Rightarrow> result list" where
  "load_student_results db user_id =
     (case map_of (results_file db) user_id of
        None \<Rightarrow> []
      | Some u \<Rightarrow> (case tests u of None \<Rightarrow> [] | Some ts \<Rightarrow> ts))"

definition stored_appeals :: "database \<Rightarrow> string \<Rightarrow> string \<Rightarrow> appeal list" where
  "stored_appeals db user_id result_id =
     (case find (\<lambda>r. r_id r = result_id) (load_student_results db user_id) of
        None \<Rightarrow> []
      | Some r \<Rightarrow> appeals_or_empty r)"

section \<open>Result review (TeacherResultsViewer in logic/teacher\_show\_result.py)\<close>

text \<open>"Unknown test"\<close>

definition unknown_test :: string where
  "unknown_test =
    [CHR 0xD0, CHR 0x9D, CHR 0xD0, CHR 0xB5, CHR 0xD0, CHR 0xB8, CHR 0xD0, CHR 0xB7,
     CHR 0xD0, CHR 0xB2, CHR 0xD0, CHR 0xB5, CHR 0xD1, CHR 0x81, CHR 0xD1, CHR 0x82,
     CHR 0xD0, CHR 0xBD, CHR 0xD1, CHR 0x8B, CHR 0xD0, CHR 0xB9, CHR 0x20, CHR 0xD1,
     CHR 0x82, CHR 0xD0, CHR 0xB5, CHR 0xD1, CHR 0x81, CHR 0xD1, CHR 0x82]"

text \<open>"Unknown question"\<close>

definition unknown_question :: string where
  "unknown_question =
    [CHR 0xD0, CHR 0x9D, CHR 0xD0, CHR 0xB5, CHR 0xD0, CHR 0xB8, CHR 0xD0, CHR 0xB7,
     CHR 0xD0, CHR 0xB2, CHR 0xD0, CHR 0xB5, CHR 0xD1, CHR 0x81, CHR 0xD1, CHR 0x82,
     CHR 0xD0, CHR 0xBD, CHR 0xD1, CHR 0x8B, CHR 0xD0, CHR 0xB9, CHR 0x20, CHR 0xD0,
     CHR 0xB2, CHR 0xD0, CHR 0xBE, CHR 0xD0, CHR 0xBF, CHR 0xD1, CHR 0x80, CHR 0xD0,
     CHR 0xBE, CHR 0xD1, CHR 0x81]"

text \<open>"None"\<close>

definition no_comment :: string where
  "no_comment =
    [CHR 0xD0, CHR 0x9D, CHR 0xD0, CHR 0xB5, CHR 0xD1, CHR 0x82]"

text \<open>
  \<open>s[:n]\<close> counts characters: in the UTF-8 encoding the bytes from 128 to 191 continue
  the character begun before them.
\<close>

definition is_continuation :: "char \<Rightarrow> bool" where
  "is_continuation c = (128 \<le> (of_char c :: nat) \<and> (of_char c :: nat) < 192)"

fun take_chars :: "nat \<Rightarrow> string \<Rightarrow> string" where
  "take_chars n [] = []"
| "take_chars n (c # cs) =
     (if is_continuation c then c # take_chars n cs
      else (case n of 0 \<Rightarrow> [] | Suc m \<Rightarrow> c # take_chars m cs))"

text \<open>A pending notification: the dict handed to \<open>_add_change\<close>, which adds \<open>change_id\<close>.\<close>

record change =
  change_type :: string
  student_id :: string
  c_test_id :: string
  c_test_name :: string
  c_question_idx :: nat
  c_question_text :: string
  c_score :: pyfloat
  c_comment :: string
  change_id :: "string option"

text \<open>
  The keys of the teacher's \<open>context.user_data\<close> that \<open>save_score\<close> uses; the dict
  \<open>test_changes\<close> maps a test id to the list of its pending notifications (an absent key
  and an empty dict are the same to \<open>setdefault\<close>).
\<close>

record teacher_context =
  current_result_id :: "string option"
  current_question_idx :: "nat option"
  current_test_id :: "string option"
  test_changes :: "(string \<times> change list) list"

text \<open>\<open>_add_change\<close>; \<open>new_uuid\<close> is the value of \<open>uuid.uuid4()\<close> as text.\<close>

definition add_change :: "string \<Rightarrow> change \<Rightarrow> teacher_context \<Rightarrow> teacher_context" where
  "add_change new_uuid chg ctx =
     (if student_id chg = [] then ctx
      else
        (let changes = (case map_of (test_changes ctx) (c_test_id chg) of
                          None \<Rightarrow> [] | Some cs \<Rightarrow> cs);
             cid = student_id chg @ ''_'' @ c_test_id chg @ ''_''
                   @ str_nat (c_question_idx chg) @ ''_'' @ change_type chg @ ''_'' @ new_uuid
         in ctx\<lparr>test_changes :=
                  AList.update (c_test_id chg) (changes @ [chg\<lparr>change_id := Some cid\<rparr>])
                    (test_changes ctx)\<rparr>))"

text \<open>
  \<open>Database.load_all_results\<close> writes the key of the user into every result it returns;
  \<open>_get_user_id_by_result_id\<close> takes it from the first result with the id.
\<close>

definition tests_or_empty :: "user_entry \<Rightarrow> result list" where
  "tests_or_empty u = (case tests u of None \<Rightarrow> [] | Some ts \<Rightarrow> ts)"

definition load_all_results :: "results_data \<Rightarrow> result list" where
  "load_all_results data =
     concat (map (\<lambda>(user_id, u). map (\<lambda>t. t\<lparr>r_user_id := Some user_id\<rparr>) (tests_or_empty u)) data)"

definition get_user_id_by_result_id :: "results_data \<Rightarrow> string \<Rightarrow> string option" where
  "get_user_id_by_result_id data result_id =
     (case find (\<lambda>r. r_id r = result_id) (load_all_results data) of
        None \<Rightarrow> None
      | Some r \<Rightarrow> r_user_id r)"

text \<open>
  The two nested loops of \<open>save_score\<close> that look the result up in the loaded file
  (the result comes with the key of the user the outer loop stands at), and the update in
  place of the result they found.
\<close>

fun find_result :: "string \<Rightarrow> results_data \<Rightarrow> (string \<times> result) option" where
  "find_result result_id [] = None"
| "find_result result_id ((user_id, u) # rest) =
     (case find (\<lambda>r. r_id r = result_id) (tests_or_empty u) of
        Some r \<Rightarrow> Some (user_id, r)
      | None \<Rightarrow> find_result result_id rest)"

fun update_first :: "('a \<Rightarrow> bool) \<Rightarrow> ('a \<Rightarrow> 'a) \<Rightarrow> 'a list \<Rightarrow> 'a list" where
  "update_first p f [] = []"
| "update_first p f (x # xs) = (if p x then f x # xs else x # update_first p f xs)"

fun update_result :: "string \<Rightarrow> (result \<Rightarrow> result) \<Rightarrow> results_data \<Rightarrow> results_data" where
  "update_result result_id f [] = []"
| "update_result result_id f ((user_id, u) # rest) =
     (case find (\<lambda>r. r_id r = result_id) (tests_or_empty u) of
        Some r \<Rightarrow>
          (user_id, u\<lparr>tests := Some (update_first (\<lambda>r. r_id r = result_id) f (tests_or_empty u))\<rparr>)
          # rest
      | None \<Rightarrow> (user_id, u) # update_result result_id f rest)"

text \<open>
  What \<open>save_score\<close> did: the templates it replied with, where it goes next, an exception
  it raised after its effects, the database and the context.
\<close>

datatype next_step = TEACHER_EDIT_SCORE | Return_state | Return_to_previous

record score_handled =
  replies :: "string list"
  next_step :: next_step
  raised :: "py_error option"
  db_after :: database
  context_after_score :: teacher_context

definition truthy :: "string option \<Rightarrow> bool" where
  "truthy s = (case s of None \<Rightarrow> False | Some t \<Rightarrow> t \<noteq> [])"

text \<open>
  \<open>TeacherResultsValidator.validate_score\<close>; \<open>float_of\<close> is Python's \<open>float\<close>, \<open>None\<close>
  for its \<open>ValueError\<close> (it reads \<open>nan\<close> and \<open>inf\<close> as well as numerals).
\<close>

definition validate_score :: "(string \<Rightarrow> pyfloat option) \<Rightarrow> string \<Rightarrow> pyfloat option" where
  "validate_score float_of score_text = float_of score_text"

text \<open>The score stored for a question, 0 when there is none, and the update \<open>save_score\<close> makes.\<close>

definition stored_score :: "result \<Rightarrow> nat \<Rightarrow> pyfloat" where
  "stored_score r q_idx =
     (case map_of (case r_scores r of None \<Rightarrow> [] | Some s \<Rightarrow> s) (str_nat q_idx) of
        None \<Rightarrow> Finite 0 | Some v \<Rightarrow> v)"

definition with_score :: "nat \<Rightarrow> pyfloat \<Rightarrow> result \<Rightarrow> result" where
  "with_score q_idx score r =
     r\<lparr>r_scores := Some (AList.update (str_nat q_idx) score
                         (case r_scores r of None \<Rightarrow> [] | Some s \<Rightarrow> s))\<rparr>"

text \<open>
  \<open>save_score\<close>. \<open>message\<close> is the text of \<open>update.message\<close> (\<open>None\<close> without a message),
  \<open>strip\<close> is \<open>str.strip\<close>, \<open>load_test_by_id\<close> the lookup in \<open>tests.json\<close>.
  The notification is built in the branch for a result without a \<open>user_id\<close> of its own,
  after the owner was found by the scan; there is no other call of \<open>_add_change\<close>.
\<close>

definition save_score ::
  "(string \<Rightarrow> pyfloat option) \<Rightarrow> (string \<Rightarrow> string) \<Rightarrow> string \<Rightarrow> (string \<Rightarrow> test option) \<Rightarrow>
     string option \<Rightarrow> database \<Rightarrow> teacher_context \<Rightarrow> score_handled" where
  "save_score float_of strip new_uuid load_test_by_id message db ctx =
     (case message of
        None \<Rightarrow>
          \<lparr>replies = [], next_step = TEACHER_EDIT_SCORE, raised = None, db_after = db,
           context_after_score = ctx\<rparr>
      | Some text \<Rightarrow>
          if \<not> (truthy (current_result_id ctx) \<and> current_question_idx ctx \<noteq> None
                 \<and> truthy (current_test_id ctx))
          then \<lparr>replies = [''error_missing_data''], next_step = Return_state, raised = None,
                db_after = db, context_after_score = ctx\<rparr>
          else
            (let result_id = the (current_result_id ctx);
                 q_idx = the (current_question_idx ctx);
                 test_id = the (current_test_id ctx)
             in case validate_score float_of (strip text) of
                  None \<Rightarrow>
                    \<lparr>replies = [''error_invalid_score''], next_step = TEACHER_EDIT_SCORE,
                     raised = None, db_after = db, context_after_score = ctx\<rparr>
                | Some score \<Rightarrow>
                    (case find_result result_id (results_file db) of
                       None \<Rightarrow>
                         \<lparr>replies = [''error_result_not_found''], next_step = Return_state,
                          raised = None, db_after = db, context_after_score = ctx\<rparr>
                     | Some (owner, result) \<Rightarrow>
                         (let old_score = stored_score result q_idx
                          in if py_eq old_score score
                             then \<lparr>replies = [''score_saved''], next_step = Return_to_previous,
                                   raised = None, db_after = db, context_after_score = ctx\<rparr>
                             else
                               (let data = update_result result_id (with_score q_idx score)
                                             (results_file db);
                                    db' = db\<lparr>results_file := data, writes := writes db + 1\<rparr>;
                                    test = load_test_by_id test_id
                                in if (case test of None \<Rightarrow> False
                                        | Some t \<Rightarrow> \<not> q_idx < length (questions t))
                                   then \<lparr>replies = [], next_step = Return_to_previous,
                                         raised = Some IndexError, db_after = db',
                                         context_after_score = ctx\<rparr>
                                   else
                                     (let name = (case test of None \<Rightarrow> unknown_test
                                                  | Some t \<Rightarrow> test_name t);
                                          question_text =
                                            (case test of None \<Rightarrow> unknown_question
                                             | Some t \<Rightarrow>
                                                 take_chars 50 (qtext (questions t ! q_idx)) @ ''...'');
                                          comment =
                                            (case map_of (case r_comments result of None \<Rightarrow> []
                                                          | Some c \<Rightarrow> c) (str_nat q_idx) of
                                               None \<Rightarrow> no_comment | Some c \<Rightarrow> c);
                                          ctx' =
                                            (if \<not> truthy (r_user_id result) then
                                               (let found = get_user_id_by_result_id data result_id
                                                in if \<not> truthy found then ctx
                                                   else add_change new_uuid
                                                          \<lparr>change_type = ''score'',
                                                           student_id = the found,
                                                           c_test_id = test_id,
                                                           c_test_name = name,
                                                           c_question_idx = q_idx + 1,
                                                           c_question_text = question_text,
                                                           c_score = score,
                                                           c_comment = comment,
                                                           change_id = None\<rparr> ctx)
                                             else ctx)
                                      in \<lparr>replies = [''score_saved''],
                                          next_step = Return_to_previous, raised = None,
                                          db_after = db', context_after_score = ctx'\<rparr>))))))"

text \<open>No result in the file carries a key \<open>user_id\<close> of its own.\<close>

definition no_own_user_id :: "results_data \<Rightarrow> bool" where
  "no_own_user_id data =
     list_all (\<lambda>e. list_all (\<lambda>r. r_user_id r = None) (tests_or_empty (snd e))) data"

section \<open>Authoring (logic/teacher\_create.py)\<close>

text \<open>\<open>TeacherTestValidator.validate_options\<close>\<close>

definition validate_options :: "string list \<Rightarrow> string \<Rightarrow> bool" where
  "validate_options opts correct =
     (let all_options = opts @ [correct]
      in if length all_options < 2 \<or> length all_options > 7 then False
         else if card (set all_options) \<noteq> length all_options then False
         else True)"













section \<open>Properties of the floats\<close>














text \<open>
  The doubles of the literals \<open>0.1\<close> and \<open>0.2875\<close>, and the product \<open>0.2875 * 100\<close>, which
  is the double below 28.75.
\<close>

lemma fl_examples:
  "fl (1 / 10) = 3602879701896397 / 2 ^ 55"
  "fl (23 / 80) = 2589569785738035 / 2 ^ 53"
  "fl (fl (23 / 80) * 100) = 8092405580431359 / 2 ^ 48"
  "fl (fl (23 / 80) * 100) < 115 / 4"
  by code_simp+

section \<open>Properties of the state manager\<close>

lemma nav_step_state_data: "state_data (nav_step n ud) = state_data ud"
  by (cases n) (simp_all add: push_def pop_def)

lemma nav_steps_state_data: "state_data (nav_steps ns ud) = state_data ud"
  by (induction ns arbitrary: ud) (simp_all add: nav_step_state_data)

lemma get_data_cong: "state_data ud' = state_data ud \<Longrightarrow> get_data s k d ud' = get_data s k d ud"
  by (simp add: get_data_def)

lemma get_set_data: "get_data s k d (set_data s k v ud) = v"
  by (simp add: get_data_def set_data_def Let_def)

text \<open>
  C9. Pushing a state and popping at once returns that state and restores the session;
  a value stored with \<open>set_data\<close> is read back by \<open>get_data\<close> after any sequence of
  pushes and pops; \<open>clear_state_data s\<close> empties the data of \<open>s\<close>, keeps the stack, and
  every other state \<open>s'\<close> keeps its data.
\<close>

theorem state_manager_laws:
  assumes "s' \<noteq> s"
  shows "pop (push s ud) = (Some s, ud)
       \<and> get_data s k d (nav_steps ns (set_data s k v ud)) = v
       \<and> state_data (clear_state_data s ud) s = None
       \<and> state_data (clear_state_data s ud) s' = state_data ud s'
       \<and> get_data s' k d (clear_state_data s ud) = get_data s' k d ud
       \<and> state_stack (clear_state_data s ud) = state_stack ud"
proof -
  have a: "pop (push s ud) = (Some s, ud)"
    by (simp add: pop_def push_def)
  have b: "get_data s k d (nav_steps ns (set_data s k v ud)) = v"
    using get_data_cong [OF nav_steps_state_data] get_set_data by metis
  have c: "state_data (clear_state_data s ud) s = None"
    by (simp add: clear_state_data_def)
  have d: "state_data (clear_state_data s ud) s' = state_data ud s'"
    using assms by (simp add: clear_state_data_def)
  have e: "get_data s' k d (clear_state_data s ud) = get_data s' k d ud"
    using d by (simp add: get_data_def)
  have f: "state_stack (clear_state_data s ud) = state_stack ud"
    by (simp add: clear_state_data_def)
  from a b c d e f show ?thesis by simp
qed

text \<open>
  The laws at a session that sits in state \<open>main\<close> with data stored for \<open>review\<close>: the
  value stored for \<open>answer\<close> survives a push and two pops, and clearing \<open>answer\<close> leaves
  the data of \<open>review\<close> in place.
\<close>

theorem state_manager_laws_witness:
  "''review'' \<noteq> ''answer''
   \<and> pop (push ''answer'' \<lparr>state_stack = [''main''], state_data = [''review'' \<mapsto> [''n'' \<mapsto> (1::nat)]]\<rparr>)
       = (Some ''answer'', \<lparr>state_stack = [''main''], state_data = [''review'' \<mapsto> [''n'' \<mapsto> 1]]\<rparr>)
   \<and> get_data ''answer'' ''k'' 0
         (nav_steps [Push ''review'', Pop, Pop]
            (set_data ''answer'' ''k'' 7
               \<lparr>state_stack = [''main''], state_data = [''review'' \<mapsto> [''n'' \<mapsto> (1::nat)]]\<rparr>)) = 7
   \<and> get_data ''review'' ''n'' 0
         (clear_state_data ''answer''
            (set_data ''answer'' ''k'' 7
               \<lparr>state_stack = [''main''], state_data = [''review'' \<mapsto> [''n'' \<mapsto> (1::nat)]]\<rparr>)) = 1"
proof -
  have h: "''review'' \<noteq> ''answer''" by simp
  show ?thesis
    using h
      state_manager_laws [OF h, of "\<lparr>state_stack = [''main''], state_data = [''review'' \<mapsto> [''n'' \<mapsto> (1::nat)]]\<rparr>"
        "''k''" 0 "[Push ''review'', Pop, Pop]" 7]
      state_manager_laws [OF h, of "set_data ''answer'' ''k'' 7
               \<lparr>state_stack = [''main''], state_data = [''review'' \<mapsto> [''n'' \<mapsto> (1::nat)]]\<rparr>"
        "''n''" 0 "[]" 1]
    by (simp add: get_data_def set_data_def)
qed

section \<open>Properties of the scoring\<close>

lemma clamp_trunc_floor: "max 0 (min 10 (py_int x)) = max 0 (min 10 \<lfloor>x\<rfloor>)"
  unfolding py_int_def
  by (auto simp: min_def max_def) (linarith+)

lemma comments_distinct:
  "distinct [comment_excellent, comment_partial, comment_some, comment_none]"
  by (simp add: comment_excellent_def comment_partial_def comment_some_def comment_none_def)

text \<open>
  C1. \<open>_check_open_answer\<close> returns a pair that is a function of the similarity of the
  lower-cased arguments alone (equal arguments give equal results): the score is
  \<open>spec_score\<close> of the similarity, that is its tenfold, floored and clamped to 0..10, and
  the comment is the fixed prefix followed by the band \<open>spec_band\<close> picks for that score,
  the four bands being four different texts. The score lies in 0..10.
\<close>

theorem check_open_answer_spec:
  assumes "a' = a" and "c' = c"
  shows "check_open_answer ratio lower a' c'
           = check_open_answer ratio lower a c
       \<and> check_open_answer ratio lower a c
           = (spec_score (ratio (lower a) (lower c)),
              comment_prefix @ spec_band (spec_score (ratio (lower a) (lower c))))
       \<and> 0 \<le> fst (check_open_answer ratio lower a c)
       \<and> fst (check_open_answer ratio lower a c) \<le> 10
       \<and> distinct [comment_excellent, comment_partial, comment_some, comment_none]"
proof -
  have "check_open_answer ratio lower a c
           = (spec_score (ratio (lower a) (lower c)),
              comment_prefix @ spec_band (spec_score (ratio (lower a) (lower c))))"
    by (simp add: check_open_answer_def spec_score_def spec_band_def Let_def clamp_trunc_floor)
  moreover have "0 \<le> spec_score x" "spec_score x \<le> 10" for x
    by (simp_all add: spec_score_def)
  ultimately show ?thesis using assms comments_distinct by simp
qed

text \<open>
  The example of the specification: a similarity of 0.85 gives the score 8 and the
  "excellent work" band.
\<close>

theorem check_open_answer_spec_witness:
  "''Paris '' = ''Paris '' \<and> ''Paris'' = ''Paris''
   \<and> check_open_answer (\<lambda>a b. 17 / 20) (\<lambda>s. s) ''Paris '' ''Paris''
       = (8, comment_prefix @ comment_excellent)"
proof -
  have h1: "''Paris '' = ''Paris ''" and h2: "''Paris'' = ''Paris''" by simp_all
  have s: "spec_score (17 / 20) = 8" by (simp add: spec_score_def floor_eq_iff)
  show ?thesis
    using check_open_answer_spec [OF h1 h2, of "\<lambda>a b. 17 / 20" "\<lambda>s. s"] s
    by (simp add: spec_band_def)
qed

text \<open>Decimal numerals are an injective naming of the question indices.\<close>

lemma digit_char_inj: "a < 10 \<Longrightarrow> b < 10 \<Longrightarrow> digit_char a = digit_char b \<Longrightarrow> a = b"
  unfolding digit_char_def
  by (simp add: nth_eq_iff_index_eq)

lemma str_nat_nonempty: "str_nat n \<noteq> []"
  by (subst str_nat.simps) simp

lemma str_nat_inj: "str_nat m = str_nat n \<Longrightarrow> m = n"
proof (induction m arbitrary: n rule: str_nat.induct)
  case (1 m)
  show ?case
  proof (cases "m < 10")
    case True
    then have sm: "str_nat m = [digit_char m]" by (subst str_nat.simps) simp
    show ?thesis
    proof (cases "n < 10")
      case True
      then have "str_nat n = [digit_char n]" by (subst str_nat.simps) simp
      with sm "1.prems" \<open>m < 10\<close> True show ?thesis by (simp add: digit_char_inj)
    next
      case False
      then have "str_nat n = str_nat (n div 10) @ [digit_char (n mod 10)]"
        by (subst str_nat.simps) simp
      with sm "1.prems" str_nat_nonempty [of "n div 10"] show ?thesis by (cases "str_nat (n div 10)") auto
    qed
  next
    case False
    then have sm: "str_nat m = str_nat (m div 10) @ [digit_char (m mod 10)]"
      by (subst str_nat.simps) simp
    show ?thesis
    proof (cases "n < 10")
      case True
      then have "str_nat n = [digit_char n]" by (subst str_nat.simps) simp
      with sm "1.prems" str_nat_nonempty [of "m div 10"] show ?thesis by (cases "str_nat (m div 10)") auto
    next
      case nf: False
      then have sn: "str_nat n = str_nat (n div 10) @ [digit_char (n mod 10)]"
        by (subst str_nat.simps) simp
      from sm sn "1.prems" have e1: "str_nat (m div 10) = str_nat (n div 10)"
        and e2: "digit_char (m mod 10) = digit_char (n mod 10)" by auto
      from "1.IH" [OF False e1] have d: "m div 10 = n div 10" .
      from e2 have "m mod 10 = n mod 10" by (auto intro: digit_char_inj)
      with d show ?thesis by (metis div_mult_mod_eq)
    qed
  qed
qed

lemma update_fresh: "k \<notin> fst ` set al \<Longrightarrow> AList.update k v al = al @ [(k, v)]"
  by (induction al) auto




lemma step_scores: "scores (question_step r l ua i q st)
   = AList.update (str_nat i) (question_score (grade_question r l (get_answer ua i) q)) (scores st)"
  by (simp add: question_step_def Let_def)






lemma loop_scores:
  "distinct (map fst xs) \<Longrightarrow> str_nat ` fst ` set xs \<inter> fst ` set (scores st) = {} \<Longrightarrow>
   scores (score_loop r l ua xs st)
   = scores st @ map (\<lambda>(i, q). (str_nat i, question_score (grade_question r l (get_answer ua i) q))) xs"
proof (induction xs arbitrary: st)
  case Nil
  then show ?case by simp
next
  case (Cons x xs)
  obtain i q where x: "x = (i, q)" by (cases x)
  from Cons.prems x have fresh: "str_nat i \<notin> fst ` set (scores st)" by auto
  let ?st = "question_step r l ua i q st"
  have sc: "scores ?st = scores st @ [(str_nat i, question_score (grade_question r l (get_answer ua i) q))]"
    by (simp add: step_scores update_fresh [OF fresh])
  have d: "distinct (map fst xs)" using Cons.prems by simp
  have "str_nat ` fst ` set xs \<inter> fst ` set (scores ?st) = {}"
    using Cons.prems x by (auto simp: sc dest: str_nat_inj)
  from Cons.IH [OF d this] show ?case by (simp add: x sc)
qed


lemma enumerate_keys_distinct: "distinct (map fst (enumerate 0 qs))"
  by (simp add: enumerate_eq_zip)

lemma enumerated_keys: "map fst (map (\<lambda>(i, q). (str_nat i, f i q)) (enumerate 0 qs)) = map str_nat [0..<length qs]"
proof -
  have "map fst (map (\<lambda>(i, q). (str_nat i, f i q)) (enumerate 0 qs)) = map (str_nat \<circ> fst) (enumerate 0 qs)"
    by (simp add: split_def o_def)
  also have "\<dots> = map str_nat (map fst (enumerate 0 qs))" by (simp only: map_map)
  also have "map fst (enumerate 0 qs) = [0..<length qs]" by (simp add: enumerate_eq_zip)
  finally show ?thesis .
qed

lemma enumerated_mem: "idx < length qs \<Longrightarrow> (idx, qs ! idx) \<in> set (enumerate 0 qs)"
  by (simp add: in_set_enumerate_eq)

lemma map_of_enumerated:
  assumes "idx < length qs"
  shows "map_of (map (\<lambda>(i, q). (str_nat i, f i q)) (enumerate 0 qs)) (str_nat idx) = Some (f idx (qs ! idx))"
proof -
  have inj: "inj_on str_nat A" for A by (auto simp: inj_on_def dest: str_nat_inj)
  have d: "distinct (map fst (map (\<lambda>(i, q). (str_nat i, f i q)) (enumerate 0 qs)))"
    unfolding enumerated_keys by (simp add: distinct_map inj)
  have "(str_nat idx, f idx (qs ! idx)) \<in> (\<lambda>(i, q). (str_nat i, f i q)) ` set (enumerate 0 qs)"
    using enumerated_mem [OF assms] by (rule rev_image_eqI) simp
  then have "(str_nat idx, f idx (qs ! idx)) \<in> set (map (\<lambda>(i, q). (str_nat i, f i q)) (enumerate 0 qs))"
    by (simp only: set_map)
  with d show ?thesis by (simp only: map_of_eq_Some_iff)
qed


lemma loop_scores_initial:
  "scores (score_loop r l ua (enumerate 0 qs) initial_report_state)
   = map (\<lambda>(i, q). (str_nat i, question_score (grade_question r l (get_answer ua i) q))) (enumerate 0 qs)"
proof -
  have e: "str_nat ` fst ` set (enumerate 0 qs) \<inter> fst ` set (scores initial_report_state) = {}"
    by (simp add: initial_report_state_def)
  show ?thesis
    using loop_scores [OF enumerate_keys_distinct e, of r l ua]
    by (simp add: initial_report_state_def)
qed

lemma final_scores:
  "result_scores (generate_score_report r l t ua)
   = map (\<lambda>(i, q). (str_nat i, question_score (grade_question r l (get_answer ua i) q))) (enumerate 0 (questions t))"
  by (simp add: generate_score_report_def final_report_state_def Let_def loop_scores_initial)






text \<open>
  C2. In the report generator a question of type \<open>test\<close> at index \<open>idx\<close> gets the score 10
  when the answer (the stored one, or the default text when none is stored) equals the
  correct answer as a string, and the score 0 otherwise; the score is stored under
  \<open>str(idx)\<close>.
\<close>

theorem closed_question_score:
  assumes "idx < length (questions t)" and "qtype (questions t ! idx) = ''test''"
  shows "map_of (result_scores (generate_score_report ratio lower t ua)) (str_nat idx)
           = Some (if get_answer ua idx = correct_answer (questions t ! idx) then 10 else 0)
       \<and> question_score (grade_question ratio lower a (questions t ! idx))
           = (if a = correct_answer (questions t ! idx) then 10 else 0)"
proof -
  have g: "question_score (grade_question ratio lower b (questions t ! idx))
           = (if b = correct_answer (questions t ! idx) then 10 else 0)" for b
    using assms(2) by (simp add: grade_question_def)
  show ?thesis
    by (simp only: final_scores map_of_enumerated [OF assms(1)] g)
qed

text \<open>
  A one-question test with correct answer 4: the answer 4 scores 10, the answer 5
  scores 0.
\<close>

theorem closed_question_score_witness:
  "(0::nat) < length (questions \<lparr>test_name = ''t'', questions =
        [\<lparr>qtype = ''test'', qtext = ''2+2'', correct_answer = ''4'', options = [''3'', ''4''],
          check_comment = None\<rparr>]\<rparr>)
   \<and> qtype (questions \<lparr>test_name = ''t'', questions =
        [\<lparr>qtype = ''test'', qtext = ''2+2'', correct_answer = ''4'', options = [''3'', ''4''],
          check_comment = None\<rparr>]\<rparr> ! 0) = ''test''
   \<and> map_of (result_scores (generate_score_report (\<lambda>a b. 0) (\<lambda>s. s)
        \<lparr>test_name = ''t'', questions =
        [\<lparr>qtype = ''test'', qtext = ''2+2'', correct_answer = ''4'', options = [''3'', ''4''],
          check_comment = None\<rparr>]\<rparr> [0 \<mapsto> ''4''])) ''0'' = Some 10
   \<and> map_of (result_scores (generate_score_report (\<lambda>a b. 0) (\<lambda>s. s)
        \<lparr>test_name = ''t'', questions =
        [\<lparr>qtype = ''test'', qtext = ''2+2'', correct_answer = ''4'', options = [''3'', ''4''],
          check_comment = None\<rparr>]\<rparr> [0 \<mapsto> ''5''])) ''0'' = Some 0"
proof -
  let ?t = "\<lparr>test_name = ''t'', questions =
        [\<lparr>qtype = ''test'', qtext = ''2+2'', correct_answer = ''4'', options = [''3'', ''4''],
          check_comment = None\<rparr>]\<rparr>"
  have h1: "(0::nat) < length (questions ?t)" by simp
  have h2: "qtype (questions ?t ! 0) = ''test''" by simp
  have s0: "str_nat 0 = ''0''" by (simp add: str_nat.simps [of 0] digit_char_def)
  show ?thesis
    using h1 h2
      closed_question_score [OF h1 h2, of "\<lambda>a b. 0" "\<lambda>s. s" "[0 \<mapsto> ''4'']"]
      closed_question_score [OF h1 h2, of "\<lambda>a b. 0" "\<lambda>s. s" "[0 \<mapsto> ''5'']"]
    by (simp add: s0 get_answer_def)
qed









section \<open>Properties of the appeal window\<close>

text \<open>
  C7. In a session that recorded \<open>test_completed_at\<close> (and the questions of the test),
  \<open>start_appeal\<close> shows the question menu and pushes the selection state when at most 24
  hours (86400 million microseconds) have passed between the completion and the call,
  and otherwise shows the expiry message and leaves the session as it was.
\<close>

theorem start_appeal_window:
  assumes "test_completed_at = Some completed" and "qs = Some q"
  shows "start_appeal appeal_select now hms test_completed_at qs ud
         = (if total_seconds (now - completed) \<le> 24 * 3600
            then Inr \<lparr>shown_text = appeal_select_text @ hms @ ''):'',
                      shown_keyboard =
                        map (\<lambda>i. [\<lparr>label = button_question @ str_nat (i + 1),
                                   callback_data = ''appeal_'' @ str_nat i\<rparr>]) [0..<length q]
                        @ [[create_back_button]],
                      returned_state = appeal_select,
                      session_after = push appeal_select ud\<rparr>
            else Inr \<lparr>shown_text = appeal_expired_text,
                      shown_keyboard = [[create_back_button]],
                      returned_state = appeal_select,
                      session_after = ud\<rparr>)
       \<and> (total_seconds (now - completed) \<le> 24 * 3600) = (now - completed \<le> 86400000000)
       \<and> appeal_expired_text \<noteq> appeal_select_text @ hms @ ''):''"
proof -
  have a: "(total_seconds (now - completed) \<le> 24 * 3600) = (now - completed \<le> 86400000000)"
  proof -
    have "(of_int (now - completed) / 1000000 \<le> (86400 :: rat))
          = ((of_int (now - completed) :: rat) \<le> of_int 86400000000)"
      by (simp add: divide_le_eq)
    then show ?thesis
      unfolding total_seconds_def by (simp only: of_int_le_iff) simp
  qed
  have b: "appeal_expired_text \<noteq> appeal_select_text @ hms @ ''):''"
    by (simp add: appeal_expired_text_def appeal_select_text_def)
  have c: "(24 * 3600 < total_seconds (now - completed))
           = (\<not> total_seconds (now - completed) \<le> 24 * 3600)"
    by (simp only: not_le)
  show ?thesis
    using a b by (simp only: assms start_appeal_def option.case c) simp
qed

text \<open>
  An appeal started exactly 24 hours after completion is admitted; one microsecond later
  it is rejected.
\<close>

theorem start_appeal_window_witness:
  "Some (0::int) = Some 0 \<and> Some ([] :: question list) = Some []
   \<and> start_appeal ''APPEAL_SELECT'' 86400000000 ''12:00:00'' (Some 0) (Some [])
         \<lparr>state_stack = [], state_data = (Map.empty :: string \<rightharpoonup> (string \<rightharpoonup> nat))\<rparr>
       = Inr \<lparr>shown_text = appeal_select_text @ ''12:00:00):'',
              shown_keyboard = [[create_back_button]],
              returned_state = ''APPEAL_SELECT'',
              session_after = \<lparr>state_stack = [''APPEAL_SELECT''], state_data = Map.empty\<rparr>\<rparr>
   \<and> start_appeal ''APPEAL_SELECT'' 86400000001 ''12:00:00'' (Some 0) (Some [])
         \<lparr>state_stack = [], state_data = (Map.empty :: string \<rightharpoonup> (string \<rightharpoonup> nat))\<rparr>
       = Inr \<lparr>shown_text = appeal_expired_text,
              shown_keyboard = [[create_back_button]],
              returned_state = ''APPEAL_SELECT'',
              session_after = \<lparr>state_stack = [], state_data = Map.empty\<rparr>\<rparr>"
proof -
  have h1: "Some (0::int) = Some 0" and h2: "Some ([] :: question list) = Some []" by simp_all
  show ?thesis
    using h1 h2
      start_appeal_window [OF h1 h2, of "''APPEAL_SELECT''" 86400000000 "''12:00:00''"
        "\<lparr>state_stack = [], state_data = (Map.empty :: string \<rightharpoonup> (string \<rightharpoonup> nat))\<rparr>"]
      start_appeal_window [OF h1 h2, of "''APPEAL_SELECT''" 86400000001 "''12:00:00''"
        "\<lparr>state_stack = [], state_data = (Map.empty :: string \<rightharpoonup> (string \<rightharpoonup> nat))\<rparr>"]
    by (simp add: push_def)
qed

section \<open>Properties of the persistence gateway\<close>

lemma update_existing_None:
  "update_existing ad apps = None \<longleftrightarrow> filter (\<lambda>a. question_idx (body a) = question_idx ad) apps = []"
  by (induction apps) (auto simp: stored_def)

lemma upsert_other:
  "filter (\<lambda>a. question_idx (body a) \<noteq> question_idx ad) (upsert nu ad apps)
   = filter (\<lambda>a. question_idx (body a) \<noteq> question_idx ad) apps"
proof -
  have "update_existing ad apps = Some apps' \<Longrightarrow>
        filter (\<lambda>a. question_idx (body a) \<noteq> question_idx ad) apps'
        = filter (\<lambda>a. question_idx (body a) \<noteq> question_idx ad) apps" for apps'
    by (induction apps arbitrary: apps') (auto simp: stored_def split: if_splits)
  then show ?thesis
    by (auto simp: upsert_def stored_def split: option.splits)
qed

lemma upsert_same:
  assumes "length (filter (\<lambda>a. question_idx (body a) = question_idx ad) apps) \<le> 1"
  shows "filter (\<lambda>a. question_idx (body a) = question_idx ad) (upsert nu ad apps)
   = [stored (case filter (\<lambda>a. question_idx (body a) = question_idx ad) apps of
                [] \<Rightarrow> nu | a # _ \<Rightarrow> appeal_id a) ad]"
proof (cases "update_existing ad apps")
  case None
  then show ?thesis
    by (simp add: upsert_def update_existing_None [THEN iffD1] stored_def)
next
  case (Some apps')
  have "update_existing ad apps = Some apps' \<Longrightarrow>
        length (filter (\<lambda>a. question_idx (body a) = question_idx ad) apps) \<le> 1 \<Longrightarrow>
        filter (\<lambda>a. question_idx (body a) = question_idx ad) apps'
        = [stored (case filter (\<lambda>a. question_idx (body a) = question_idx ad) apps of
                [] \<Rightarrow> nu | a # _ \<Rightarrow> appeal_id a) ad]" for apps'
    by (induction apps arbitrary: apps') (auto simp: stored_def split: if_splits)
  from this [OF Some assms] Some show ?thesis by (simp add: upsert_def)
qed

lemma save_in_tests_find:
  "find (\<lambda>r. r_id r = rid) ts = Some r0 \<Longrightarrow>
   \<exists>ts'. save_in_tests nu rid ad ts = Some ts'
     \<and> find (\<lambda>r. r_id r = rid) ts' = Some (r0\<lparr>r_appeals := Some (upsert nu ad (appeals_or_empty r0))\<rparr>)"
  by (induction ts) (auto split: if_splits)

lemma save_in_tests_missing:
  "find (\<lambda>r. r_id r = rid) ts = None \<Longrightarrow> save_in_tests nu rid ad ts = None"
  by (induction ts) (auto split: if_splits)

lemma stored_after_save:
  assumes "find (\<lambda>r. r_id r = rid) (load_student_results db uid) = Some r0"
  shows "stored_appeals (snd (save_appeal nu uid rid ad db)) uid rid
         = upsert nu ad (stored_appeals db uid rid)"
    and "\<exists>r1. find (\<lambda>r. r_id r = rid) (load_student_results (snd (save_appeal nu uid rid ad db)) uid) = Some r1"
proof -
  from assms obtain u ts where u: "map_of (results_file db) uid = Some u" and ts: "tests u = Some ts"
    and f: "find (\<lambda>r. r_id r = rid) ts = Some r0"
    by (auto simp: load_student_results_def split: option.splits)
  from save_in_tests_find [OF f, of nu ad] obtain ts' where
    s: "save_in_tests nu rid ad ts = Some ts'"
    and f': "find (\<lambda>r. r_id r = rid) ts' = Some (r0\<lparr>r_appeals := Some (upsert nu ad (appeals_or_empty r0))\<rparr>)"
    by blast
  have task: "save_appeal_task nu uid rid ad (results_file db)
        = Inr (AList.update uid (u\<lparr>tests := Some ts'\<rparr>) (results_file db))"
    by (simp add: save_appeal_task_def u ts s)
  have l: "load_student_results (snd (save_appeal nu uid rid ad db)) uid = ts'"
    by (simp add: save_appeal_def run_write_task_def task load_student_results_def update_conv')
  show "stored_appeals (snd (save_appeal nu uid rid ad db)) uid rid
         = upsert nu ad (stored_appeals db uid rid)"
    using assms by (simp add: stored_appeals_def l f' appeals_or_empty_def)
  show "\<exists>r1. find (\<lambda>r. r_id r = rid) (load_student_results (snd (save_appeal nu uid rid ad db)) uid) = Some r1"
    by (simp add: l f')
qed

lemma upsert_invariant:
  assumes "length (filter (\<lambda>a. question_idx (body a) = q) apps) \<le> 1"
  shows "length (filter (\<lambda>a. question_idx (body a) = q) (upsert nu ad apps)) \<le> 1"
proof (cases "q = question_idx ad")
  case True
  with upsert_same [of ad apps nu] assms show ?thesis by simp
next
  case False
  have "filter (\<lambda>a. question_idx (body a) = q) (upsert nu ad apps)
        = filter (\<lambda>a. question_idx (body a) = q) (filter (\<lambda>a. question_idx (body a) \<noteq> question_idx ad) (upsert nu ad apps))"
    using False by (auto intro: filter_cong simp del: filter_filter simp add: filter_filter)
  also have "\<dots> = filter (\<lambda>a. question_idx (body a) = q) (filter (\<lambda>a. question_idx (body a) \<noteq> question_idx ad) apps)"
    by (simp only: upsert_other)
  also have "\<dots> = filter (\<lambda>a. question_idx (body a) = q) apps"
    using False by (auto intro: filter_cong simp add: filter_filter)
  finally show ?thesis using assms by simp
qed

lemma save_result_no_appeals:
  "save_result_task nu uid r data = Inr data' \<Longrightarrow>
   \<exists>u ts. map_of data' uid = Some u \<and> tests u = Some ts \<and> ts \<noteq> []
          \<and> r_id (last ts) = nu \<and> r_appeals (last ts) = Some []"
  by (auto simp: save_result_task_def Let_def update_conv' split: option.splits if_splits)

lemma save_appeal_returns_normally: "fst (save_appeal nu uid rid ad db) = Inr ()"
  by (simp add: save_appeal_def)

lemma save_appeal_failure_keeps_file:
  "save_appeal_task nu uid rid ad (results_file db) = Inl e \<Longrightarrow>
   results_file (snd (save_appeal nu uid rid ad db)) = results_file db
   \<and> writes (snd (save_appeal nu uid rid ad db)) = writes db"
  by (simp add: save_appeal_def run_write_task_def)

lemma save_appeal_task_not_found:
  "find (\<lambda>r. r_id r = rid) (load_student_results db uid) = None \<Longrightarrow>
   \<exists>m. save_appeal_task nu uid rid ad (results_file db) = Inl (ValueError m)"
  by (auto simp: save_appeal_task_def load_student_results_def save_in_tests_missing
      split: option.splits)

text \<open>
  C4. When the result exists for the user and holds at most one appeal for the question
  \<open>q\<close> (which is so for a result written by \<open>save_result\<close> and kept so by every
  \<open>save_appeal\<close>, see \<open>save_result_no_appeals\<close> and \<open>upsert_invariant\<close>), two calls of
  \<open>save_appeal\<close> for \<open>q\<close> leave exactly one appeal for \<open>q\<close> in the stored result. It is
  the second call's dict (its comment and timestamp) under the id the appeal had after
  the first call: the id of the appeal stored before, or else the id drawn by the first
  call. The appeals for the other questions are the same as before the two calls.
\<close>

theorem save_appeal_upsert:
  assumes "find (\<lambda>r. r_id r = rid) (load_student_results db uid) = Some r0"
    and "length (filter (\<lambda>a. question_idx (body a) = q) (stored_appeals db uid rid)) \<le> 1"
    and "question_idx a1 = q" and "question_idx a2 = q"
  shows "(let db1 = snd (save_appeal nu1 uid rid a1 db);
              db2 = snd (save_appeal nu2 uid rid a2 db1);
              first_id = (case filter (\<lambda>a. question_idx (body a) = q) (stored_appeals db uid rid) of
                            [] \<Rightarrow> nu1 | a # _ \<Rightarrow> appeal_id a)
          in filter (\<lambda>a. question_idx (body a) = q) (stored_appeals db1 uid rid)
               = [stored first_id a1]
           \<and> filter (\<lambda>a. question_idx (body a) = q) (stored_appeals db2 uid rid)
               = [stored first_id a2]
           \<and> map (\<lambda>a. (appeal_id a, student_comment (body a), timestamp (body a)))
                 (filter (\<lambda>a. question_idx (body a) = q) (stored_appeals db2 uid rid))
               = [(first_id, student_comment a2, timestamp a2)]
           \<and> filter (\<lambda>a. question_idx (body a) \<noteq> q) (stored_appeals db2 uid rid)
               = filter (\<lambda>a. question_idx (body a) \<noteq> q) (stored_appeals db uid rid))"
proof -
  let ?db1 = "snd (save_appeal nu1 uid rid a1 db)"
  let ?db2 = "snd (save_appeal nu2 uid rid a2 ?db1)"
  let ?same = "\<lambda>a. question_idx (body a) = q"
  let ?other = "\<lambda>a. question_idx (body a) \<noteq> q"
  let ?first = "case filter ?same (stored_appeals db uid rid) of [] \<Rightarrow> nu1 | a # _ \<Rightarrow> appeal_id a"
  have s1: "stored_appeals ?db1 uid rid = upsert nu1 a1 (stored_appeals db uid rid)"
    by (rule stored_after_save(1) [OF assms(1)])
  from stored_after_save(2) [OF assms(1), of nu1 a1] obtain r1 where
    r1: "find (\<lambda>r. r_id r = rid) (load_student_results ?db1 uid) = Some r1" by blast
  have s2: "stored_appeals ?db2 uid rid = upsert nu2 a2 (stored_appeals ?db1 uid rid)"
    by (rule stored_after_save(1) [OF r1])
  have f1: "filter ?same (stored_appeals ?db1 uid rid) = [stored ?first a1]"
    unfolding s1 using upsert_same [of a1 "stored_appeals db uid rid" nu1] assms(2,3) by simp
  then have one: "length (filter (\<lambda>a. question_idx (body a) = question_idx a2) (stored_appeals ?db1 uid rid)) \<le> 1"
    using assms(4) by simp
  have f2: "filter ?same (stored_appeals ?db2 uid rid) = [stored ?first a2]"
    unfolding s2 using upsert_same [OF one, of nu2] f1 assms(4) by (simp add: stored_def)
  have o1: "filter ?other (stored_appeals ?db1 uid rid) = filter ?other (stored_appeals db uid rid)"
    unfolding s1 using upsert_other [of a1 nu1 "stored_appeals db uid rid"] assms(3) by simp
  have o2: "filter ?other (stored_appeals ?db2 uid rid) = filter ?other (stored_appeals ?db1 uid rid)"
    unfolding s2 using upsert_other [of a2 nu2 "stored_appeals ?db1 uid rid"] assms(4) by simp
  have m: "map (\<lambda>a. (appeal_id a, student_comment (body a), timestamp (body a)))
             (filter ?same (stored_appeals ?db2 uid rid)) = [(?first, student_comment a2, timestamp a2)]"
    by (simp add: f2 stored_def)
  show ?thesis
    unfolding Let_def using f1 f2 m o1 o2 by (intro conjI) simp_all
qed

text \<open>
  A result with an appeal for question 1 and none for question 0: two appeals for
  question 0 leave one appeal for it, with the id drawn by the first call and the second
  comment, behind the untouched appeal for question 1.
\<close>

theorem save_appeal_upsert_witness:
  "find (\<lambda>r. r_id r = ''r1'')
     (load_student_results
        \<lparr>results_file = [(''u1'', \<lparr>tests = Some [\<lparr>r_id = ''r1'', r_test_id = ''t1'',
            r_user_id = None, r_scores = None, r_comments = None,
            r_appeals = Some [stored ''a0'' \<lparr>question_idx = 1, student_comment = ''old'',
              appeal_status = ''pending'', timestamp = ''t0''\<rparr>]\<rparr>]\<rparr>)],
          writes = 0, error_log = []\<rparr> ''u1'')
     = Some \<lparr>r_id = ''r1'', r_test_id = ''t1'',
            r_user_id = None, r_scores = None, r_comments = None,
            r_appeals = Some [stored ''a0'' \<lparr>question_idx = 1, student_comment = ''old'',
              appeal_status = ''pending'', timestamp = ''t0''\<rparr>]\<rparr>
   \<and> stored_appeals
        (snd (save_appeal ''id2'' ''u1'' ''r1''
                \<lparr>question_idx = 0, student_comment = ''second'', appeal_status = ''pending'',
                  timestamp = ''t2''\<rparr>
           (snd (save_appeal ''id1'' ''u1'' ''r1''
                \<lparr>question_idx = 0, student_comment = ''first'', appeal_status = ''pending'',
                  timestamp = ''t1''\<rparr>
        \<lparr>results_file = [(''u1'', \<lparr>tests = Some [\<lparr>r_id = ''r1'', r_test_id = ''t1'',
            r_user_id = None, r_scores = None, r_comments = None,
            r_appeals = Some [stored ''a0'' \<lparr>question_idx = 1, student_comment = ''old'',
              appeal_status = ''pending'', timestamp = ''t0''\<rparr>]\<rparr>]\<rparr>)],
          writes = 0, error_log = []\<rparr>)))) ''u1'' ''r1''
     = [stored ''a0'' \<lparr>question_idx = 1, student_comment = ''old'',
              appeal_status = ''pending'', timestamp = ''t0''\<rparr>,
        stored ''id1'' \<lparr>question_idx = 0, student_comment = ''second'',
              appeal_status = ''pending'', timestamp = ''t2''\<rparr>]"
proof -
  let ?r = "\<lparr>r_id = ''r1'', r_test_id = ''t1'',
            r_user_id = None, r_scores = None, r_comments = None,
            r_appeals = Some [stored ''a0'' \<lparr>question_idx = 1, student_comment = ''old'',
              appeal_status = ''pending'', timestamp = ''t0''\<rparr>]\<rparr>"
  let ?db = "\<lparr>results_file = [(''u1'', \<lparr>tests = Some [?r]\<rparr>)], writes = 0, error_log = []\<rparr>"
  let ?a1 = "\<lparr>question_idx = 0, student_comment = ''first'', appeal_status = ''pending'',
                  timestamp = ''t1''\<rparr>"
  let ?a2 = "\<lparr>question_idx = 0, student_comment = ''second'', appeal_status = ''pending'',
                  timestamp = ''t2''\<rparr>"
  have h1: "find (\<lambda>r. r_id r = ''r1'') (load_student_results ?db ''u1'') = Some ?r"
    by (simp add: load_student_results_def)
  have h2: "length (filter (\<lambda>a. question_idx (body a) = 0) (stored_appeals ?db ''u1'' ''r1'')) \<le> 1"
    by (simp add: stored_appeals_def load_student_results_def appeals_or_empty_def stored_def)
  have h3: "question_idx ?a1 = 0" and h4: "question_idx ?a2 = 0" by simp_all
  have e: "stored_appeals (snd (save_appeal ''id2'' ''u1'' ''r1'' ?a2
             (snd (save_appeal ''id1'' ''u1'' ''r1'' ?a1 ?db)))) ''u1'' ''r1''
           = [stored ''a0'' \<lparr>question_idx = 1, student_comment = ''old'',
              appeal_status = ''pending'', timestamp = ''t0''\<rparr>, stored ''id1'' ?a2]"
    by (simp add: save_appeal_def run_write_task_def save_appeal_task_def stored_appeals_def
        load_student_results_def appeals_or_empty_def upsert_def stored_def)
  show ?thesis
    using h1 e save_appeal_upsert [OF h1 h2 h3 h4, of "''id1''" "''id2''"]
    by simp
qed

text \<open>
  C5 (what the code does). The user \<open>nobody\<close> is not in the file, and the user \<open>u1\<close> has
  no result \<open>r9\<close>: the task raises \<open>ValueError\<close> inside the orchestrator thread, which logs
  it; the file is not written, but \<open>save_appeal\<close> returns normally in both cases, so
  the caller's \<open>except\<close> branch is never taken.
\<close>

theorem save_appeal_not_found_returns_normally:
  "save_appeal ''id1'' ''nobody'' ''r1''
      \<lparr>question_idx = 0, student_comment = ''c'', appeal_status = ''pending'', timestamp = ''t''\<rparr>
      \<lparr>results_file = [], writes = 0, error_log = []\<rparr>
    = (Inr (), \<lparr>results_file = [], writes = 0,
                error_log = [ValueError (msg_user @ ''nobody'' @ msg_not_found)]\<rparr>)
   \<and> save_appeal ''id1'' ''u1'' ''r9''
      \<lparr>question_idx = 0, student_comment = ''c'', appeal_status = ''pending'', timestamp = ''t''\<rparr>
      \<lparr>results_file = [(''u1'', \<lparr>tests = Some []\<rparr>)], writes = 0, error_log = []\<rparr>
    = (Inr (), \<lparr>results_file = [(''u1'', \<lparr>tests = Some []\<rparr>)], writes = 0,
                error_log = [ValueError (msg_result @ ''r9'' @ msg_not_found)]\<rparr>)"
  by (simp add: save_appeal_def run_write_task_def save_appeal_task_def)

section \<open>Properties of the result review\<close>

text \<open>
  The result found by the loops of \<open>save_score\<close> is found again, updated, in the file it
  writes, and the scan of \<open>_get_user_id_by_result_id\<close> arrives at the user the loops
  stood at.
\<close>

lemma find_app:
  "find P (xs @ ys) = (case find P xs of Some x \<Rightarrow> Some x | None \<Rightarrow> find P ys)"
  by (induction xs) auto

lemma find_map_user_id:
  "find (\<lambda>r. r_id r = rid) (map (\<lambda>t. t\<lparr>r_user_id := Some uid\<rparr>) ts)
   = map_option (\<lambda>t. t\<lparr>r_user_id := Some uid\<rparr>) (find (\<lambda>r. r_id r = rid) ts)"
  by (induction ts) auto

lemma find_update_first:
  assumes "\<And>r. r_id (f r) = r_id r"
  shows "find (\<lambda>r. r_id r = rid) (update_first (\<lambda>r. r_id r = rid) f ts)
         = map_option f (find (\<lambda>r. r_id r = rid) ts)"
  by (induction ts) (auto simp: assms)

lemma update_first_absent:
  "find p ts = None \<Longrightarrow> update_first p f ts = ts"
  by (induction ts) (auto split: if_splits)

lemma find_result_updated:
  assumes "\<And>r. r_id (f r) = r_id r" and "find_result rid data = Some (owner, result)"
  shows "find_result rid (update_result rid f data) = Some (owner, f result)"
  using assms(2)
proof (induction data)
  case Nil
  then show ?case by simp
next
  case (Cons e data)
  obtain uid u where e: "e = (uid, u)" by (cases e)
  show ?case
  proof (cases "find (\<lambda>r. r_id r = rid) (tests_or_empty u)")
    case None
    with Cons e show ?thesis by simp
  next
    case (Some r)
    with Cons.prems e have "owner = uid" "result = r" by simp_all
    with Some e show ?thesis
      by (simp add: tests_or_empty_def find_update_first [OF assms(1)])
  qed
qed

lemma load_all_results_Cons:
  "load_all_results ((uid, u) # rest)
   = map (\<lambda>t. t\<lparr>r_user_id := Some uid\<rparr>) (tests_or_empty u) @ load_all_results rest"
  by (simp add: load_all_results_def)

lemma owner_by_scan:
  "find_result rid data = Some (owner, result) \<Longrightarrow> get_user_id_by_result_id data rid = Some owner"
proof (induction data)
  case Nil
  then show ?case by simp
next
  case (Cons e data)
  obtain uid u where e: "e = (uid, u)" by (cases e)
  show ?case
  proof (cases "find (\<lambda>r. r_id r = rid) (tests_or_empty u)")
    case None
    with Cons e have "get_user_id_by_result_id data rid = Some owner" by simp
    with None e show ?thesis
      by (simp add: get_user_id_by_result_id_def load_all_results_Cons find_app find_map_user_id)
  next
    case (Some r)
    with Cons.prems e have "owner = uid" by simp
    with Some e show ?thesis
      by (simp add: get_user_id_by_result_id_def load_all_results_Cons find_app find_map_user_id)
  qed
qed

lemma with_score_id: "r_id (with_score q s r) = r_id r"
  by (simp add: with_score_def)

text \<open>
  No writer of \<open>results.json\<close> stores a key \<open>user_id\<close> in a result: not \<open>save_result\<close>
  on the dict of \<open>_save_result\<close>, not \<open>save_appeal\<close>, not \<open>save_score\<close>. So the result
  the loops of \<open>save_score\<close> find has none.
\<close>

lemma no_own_user_id_found:
  "no_own_user_id data \<Longrightarrow> find_result rid data = Some (owner, result) \<Longrightarrow> r_user_id result = None"
proof (induction data)
  case Nil
  then show ?case by simp
next
  case (Cons e data)
  obtain uid u where e: "e = (uid, u)" by (cases e)
  show ?case
  proof (cases "find (\<lambda>r. r_id r = rid) (tests_or_empty u)")
    case None
    with Cons e show ?thesis by (simp add: no_own_user_id_def)
  next
    case (Some r)
    then have "r \<in> set (tests_or_empty u)" by (auto simp: find_Some_iff)
    with Cons.prems Some e show ?thesis by (auto simp: no_own_user_id_def list_all_iff)
  qed
qed

lemma no_own_user_id_update:
  "no_own_user_id data \<Longrightarrow> no_own_user_id (AList.update uid u data) = 
     list_all (\<lambda>r. r_user_id r = None) (tests_or_empty u)"
  by (induction data) (auto simp: no_own_user_id_def)

lemma no_own_user_id_lookup:
  "no_own_user_id data \<Longrightarrow> map_of data uid = Some u \<Longrightarrow>
   list_all (\<lambda>r. r_user_id r = None) (tests_or_empty u)"
  by (induction data) (auto simp: no_own_user_id_def split: if_splits)

lemma save_result_keeps_no_own_user_id:
  assumes "no_own_user_id data"
    and "save_result_task nu uid (new_result_data tid sc) data = Inr data'"
  shows "no_own_user_id data'"
proof (cases "map_of data uid")
  case None
  with assms(2) have "data' = AList.update uid \<lparr>tests = Some [(new_result_data tid sc)\<lparr>r_id := nu, r_appeals := Some []\<rparr>]\<rparr>
     (AList.update uid \<lparr>tests = Some []\<rparr> data)"
    by (auto simp: save_result_task_def Let_def update_conv' split: option.splits)
  with assms(1) show ?thesis
    by (simp add: no_own_user_id_update tests_or_empty_def new_result_data_def)
next
  case (Some u)
  with assms(2) obtain ts where ts: "tests u = Some ts"
    and d: "data' = AList.update uid (u\<lparr>tests := Some (ts @ [(new_result_data tid sc)\<lparr>r_id := nu, r_appeals := Some []\<rparr>])\<rparr>) data"
    by (auto simp: save_result_task_def Let_def split: option.splits)
  from no_own_user_id_lookup [OF assms(1) Some] ts
  have "list_all (\<lambda>r. r_user_id r = None) ts" by (simp add: tests_or_empty_def)
  with assms(1) d show ?thesis
    by (simp add: no_own_user_id_update tests_or_empty_def new_result_data_def)
qed

lemma no_user_id_map:
  "list_all (\<lambda>r. r_user_id r = None) xs = list_all (\<lambda>x. x = None) (map r_user_id xs)"
  by (simp add: list_all_iff)

lemma save_in_tests_keeps_user_ids:
  "save_in_tests nu rid ad ts = Some ts' \<Longrightarrow> map r_user_id ts' = map r_user_id ts"
  by (induction ts arbitrary: ts') (auto split: if_splits)

lemma save_appeal_keeps_no_own_user_id:
  assumes "no_own_user_id data" and "save_appeal_task nu uid rid ad data = Inr data'"
  shows "no_own_user_id data'"
proof -
  from assms(2) obtain u ts ts' where u: "map_of data uid = Some u" and ts: "tests u = Some ts"
    and s: "save_in_tests nu rid ad ts = Some ts'"
    and d: "data' = AList.update uid (u\<lparr>tests := Some ts'\<rparr>) data"
    by (auto simp: save_appeal_task_def split: option.splits)
  from no_own_user_id_lookup [OF assms(1) u] ts
  have "list_all (\<lambda>r. r_user_id r = None) ts" by (simp add: tests_or_empty_def)
  then have "list_all (\<lambda>r. r_user_id r = None) ts'"
    by (simp only: no_user_id_map save_in_tests_keeps_user_ids [OF s])
  with assms(1) d show ?thesis
    by (simp add: no_own_user_id_update tests_or_empty_def)
qed

lemma update_first_keeps_user_ids:
  "(\<And>r. r_user_id (f r) = r_user_id r) \<Longrightarrow> map r_user_id (update_first p f ts) = map r_user_id ts"
  by (induction ts) auto

lemma with_score_keeps_no_own_user_id:
  "no_own_user_id data \<Longrightarrow> no_own_user_id (update_result rid (with_score q s) data)"
proof (induction data)
  case Nil
  then show ?case by simp
next
  case (Cons e data)
  obtain uid u where e: "e = (uid, u)" by (cases e)
  have k: "map r_user_id (update_first (\<lambda>r. r_id r = rid) (with_score q s) ts) = map r_user_id ts" for ts
    by (rule update_first_keeps_user_ids) (simp add: with_score_def)
  have l: "list_all (\<lambda>r. r_user_id r = None) (update_first (\<lambda>r. r_id r = rid) (with_score q s) ts)
         = list_all (\<lambda>r. r_user_id r = None) ts" for ts
    by (simp only: no_user_id_map k)
  from Cons e show ?case
    by (cases "find (\<lambda>r. r_id r = rid) (tests_or_empty u)")
      (auto simp: no_own_user_id_def tests_or_empty_def l)
qed

lemma py_eq_NaN: "\<not> py_eq a NaN \<and> \<not> py_eq NaN a"
  by (simp add: py_eq_def)

lemma str_nat_0: "str_nat 0 = ''0''"
  by code_simp

lemma str_nat_1: "str_nat (Suc 0) = ''1''"
  by code_simp

text \<open>
  C6. The teacher's context names a result, a question and a test; the message parses
  to a score; the result is in the file under the user \<open>owner\<close> (whose key is not empty)
  and has, as every stored result, no \<open>user_id\<close> of its own; the test, if it still exists,
  has the question. If the new score equals the stored one (by Python's \<open>==\<close>, under
  which NaN equals nothing), \<open>save_score\<close> answers \<open>score_saved\<close> and leaves the database
  and the context as they were: no write, no notification. If it differs, the file is
  written once with the score of that question replaced in that result, and exactly one
  notification is appended to the pending ones of the test, of type \<open>score\<close>, for the
  owner, the test and the question (numbered from 1), carrying the new score; the
  pending notifications of every other test \<open>tid'\<close> are unchanged.
\<close>

theorem save_score_notifies:
  assumes "current_result_id ctx = Some rid" and "rid \<noteq> []"
    and "current_question_idx ctx = Some q_idx"
    and "current_test_id ctx = Some tid" and "tid \<noteq> []"
    and "validate_score float_of (strip msg) = Some score"
    and "find_result rid (results_file db) = Some (owner, result)"
    and "r_user_id result = None" and "owner \<noteq> []"
    and "case load_test_by_id tid of None \<Rightarrow> True | Some t \<Rightarrow> q_idx < length (questions t)"
  shows "(let out = save_score float_of strip new_uuid load_test_by_id (Some msg) db ctx;
              pending = (case map_of (test_changes ctx) tid of None \<Rightarrow> [] | Some cs \<Rightarrow> cs)
          in (py_eq (stored_score result q_idx) score \<longrightarrow>
                out = \<lparr>replies = [''score_saved''], next_step = Return_to_previous,
                       raised = None, db_after = db, context_after_score = ctx\<rparr>)
           \<and> (\<not> py_eq (stored_score result q_idx) score \<longrightarrow>
                replies out = [''score_saved''] \<and> raised out = None
                \<and> db_after out
                    = db\<lparr>results_file :=
                           update_result rid (with_score q_idx score) (results_file db),
                         writes := writes db + 1\<rparr>
                \<and> find_result rid (results_file (db_after out))
                    = Some (owner, with_score q_idx score result)
                \<and> stored_score (with_score q_idx score result) q_idx = score
                \<and> (\<exists>chg. map_of (test_changes (context_after_score out)) tid
                             = Some (pending @ [chg])
                       \<and> change_type chg = ''score'' \<and> student_id chg = owner
                       \<and> c_test_id chg = tid \<and> c_question_idx chg = q_idx + 1
                       \<and> c_score chg = score)
                \<and> (tid' \<noteq> tid \<longrightarrow>
                      map_of (test_changes (context_after_score out)) tid'
                      = map_of (test_changes ctx) tid')))"
proof -
  let ?out = "save_score float_of strip new_uuid load_test_by_id (Some msg) db ctx"
  let ?data = "update_result rid (with_score q_idx score) (results_file db)"
  have t: "truthy (current_result_id ctx)" "truthy (current_test_id ctx)"
    using assms(1,2,4,5) by (simp_all add: truthy_def)
  have eq: "?out = \<lparr>replies = [''score_saved''], next_step = Return_to_previous,
                       raised = None, db_after = db, context_after_score = ctx\<rparr>"
    if "py_eq (stored_score result q_idx) score"
    using that assms t by (simp add: save_score_def Let_def)
  have f: "find_result rid ?data = Some (owner, with_score q_idx score result)"
    by (rule find_result_updated [OF with_score_id assms(7)])
  have o: "get_user_id_by_result_id ?data rid = Some owner"
    by (rule owner_by_scan [OF f])
  have st: "stored_score (with_score q_idx score result) q_idx = score"
    by (simp add: stored_score_def with_score_def update_conv')
  have nr: "\<not> (case load_test_by_id tid of None \<Rightarrow> False | Some t \<Rightarrow> \<not> q_idx < length (questions t))"
    using assms(10) by (simp split: option.splits)
  have ne: "replies ?out = [''score_saved''] \<and> raised ?out = None
                \<and> db_after ?out = db\<lparr>results_file := ?data, writes := writes db + 1\<rparr>
                \<and> (\<exists>chg. map_of (test_changes (context_after_score ?out)) tid
                             = Some ((case map_of (test_changes ctx) tid of None \<Rightarrow> [] | Some cs \<Rightarrow> cs) @ [chg])
                       \<and> change_type chg = ''score'' \<and> student_id chg = owner
                       \<and> c_test_id chg = tid \<and> c_question_idx chg = q_idx + 1
                       \<and> c_score chg = score)
                \<and> (tid' \<noteq> tid \<longrightarrow>
                      map_of (test_changes (context_after_score ?out)) tid'
                      = map_of (test_changes ctx) tid')"
    if "\<not> py_eq (stored_score result q_idx) score"
    using that assms(1-9) t o nr
    by (simp add: save_score_def Let_def truthy_def add_change_def update_conv')
  from eq ne f st show ?thesis
    unfolding Let_def by (auto simp del: split_paired_Ex)
qed

text \<open>
  A result with the stored score 3: the entry 5.0 rewrites the score and queues one
  notification for its owner; the entry 3 changes nothing.
\<close>

theorem save_score_notifies_witness:
  "find_result ''result1''
     (results_file
       \<lparr>results_file =
             [(''user1'', \<lparr>tests = Some
                [\<lparr>r_id = ''result1'', r_test_id = ''test1'', r_user_id = None,
                 r_scores = Some [(''0'', Finite 3)], r_comments = None, r_appeals = Some []\<rparr>]\<rparr>)],
           writes = 0, error_log = []\<rparr>)
    = Some (''user1'',
            \<lparr>r_id = ''result1'', r_test_id = ''test1'', r_user_id = None,
              r_scores = Some [(''0'', Finite 3)], r_comments = None, r_appeals = Some []\<rparr>)
   \<and> save_score (\<lambda>s. if s = ''5.0'' then Some (Finite 5) else if s = ''3'' then Some (Finite 3) else None)
      (\<lambda>s. s) ''uuid1''
      (\<lambda>i. Some \<lparr>test_name = ''Test 1'', questions =
         [\<lparr>qtype = ''open'', qtext = ''Question 1'', correct_answer = ''a'', options = [],
           check_comment = None\<rparr>]\<rparr>)
      (Some ''5.0'')
      \<lparr>results_file =
          [(''user1'', \<lparr>tests = Some
             [\<lparr>r_id = ''result1'', r_test_id = ''test1'', r_user_id = None,
              r_scores = Some [(''0'', Finite 3)], r_comments = None, r_appeals = Some []\<rparr>]\<rparr>)],
        writes = 0, error_log = []\<rparr>
      \<lparr>current_result_id = Some ''result1'', current_question_idx = Some 0,
        current_test_id = Some ''test1'', test_changes = []\<rparr>
    = \<lparr>replies = [''score_saved''], next_step = Return_to_previous, raised = None,
      db_after =
       \<lparr>results_file =
          [(''user1'', \<lparr>tests = Some
             [\<lparr>r_id = ''result1'', r_test_id = ''test1'', r_user_id = None,
              r_scores = Some [(''0'', Finite 5)], r_comments = None, r_appeals = Some []\<rparr>]\<rparr>)],
        writes = 1, error_log = []\<rparr>,
      context_after_score =
       \<lparr>current_result_id = Some ''result1'', current_question_idx = Some 0,
        current_test_id = Some ''test1'', test_changes = [(''test1'',
           [\<lparr>change_type = ''score'', student_id = ''user1'', c_test_id = ''test1'',
             c_test_name = ''Test 1'', c_question_idx = 1,
             c_question_text = ''Question 1...'', c_score = Finite 5,
             c_comment = no_comment,
             change_id = Some ''user1_test1_1_score_uuid1''\<rparr>])]\<rparr>\<rparr>
   \<and> save_score (\<lambda>s. if s = ''5.0'' then Some (Finite 5) else if s = ''3'' then Some (Finite 3) else None)
      (\<lambda>s. s) ''uuid1''
      (\<lambda>i. Some \<lparr>test_name = ''Test 1'', questions =
         [\<lparr>qtype = ''open'', qtext = ''Question 1'', correct_answer = ''a'', options = [],
           check_comment = None\<rparr>]\<rparr>)
      (Some ''3'')
      \<lparr>results_file =
          [(''user1'', \<lparr>tests = Some
             [\<lparr>r_id = ''result1'', r_test_id = ''test1'', r_user_id = None,
              r_scores = Some [(''0'', Finite 3)], r_comments = None, r_appeals = Some []\<rparr>]\<rparr>)],
        writes = 0, error_log = []\<rparr>
      \<lparr>current_result_id = Some ''result1'', current_question_idx = Some 0,
        current_test_id = Some ''test1'', test_changes = []\<rparr>
    = \<lparr>replies = [''score_saved''], next_step = Return_to_previous, raised = None,
      db_after =
       \<lparr>results_file =
          [(''user1'', \<lparr>tests = Some
             [\<lparr>r_id = ''result1'', r_test_id = ''test1'', r_user_id = None,
              r_scores = Some [(''0'', Finite 3)], r_comments = None, r_appeals = Some []\<rparr>]\<rparr>)],
        writes = 0, error_log = []\<rparr>,
      context_after_score =
       \<lparr>current_result_id = Some ''result1'', current_question_idx = Some 0,
        current_test_id = Some ''test1'', test_changes = []\<rparr>\<rparr>"
proof -
  let ?r = "\<lparr>r_id = ''result1'', r_test_id = ''test1'', r_user_id = None,
      r_scores = Some [(''0'', Finite 3)], r_comments = None, r_appeals = Some []\<rparr>"
  let ?db = "\<lparr>results_file = [(''user1'', \<lparr>tests = Some [?r]\<rparr>)], writes = 0, error_log = []\<rparr>"
  let ?ctx = "\<lparr>current_result_id = Some ''result1'', current_question_idx = Some 0,
      current_test_id = Some ''test1'', test_changes = []\<rparr>"
  let ?fl = "(\<lambda>s. if s = ''5.0'' then Some (Finite 5) else if s = ''3'' then Some (Finite 3) else None)"
  let ?lt = "(\<lambda>i. Some \<lparr>test_name = ''Test 1'', questions =
      [\<lparr>qtype = ''open'', qtext = ''Question 1'', correct_answer = ''a'', options = [],
        check_comment = None\<rparr>]\<rparr>)"
  have c1: "current_result_id ?ctx = Some ''result1''" and c2: "''result1'' \<noteq> []"
    and c3: "current_question_idx ?ctx = Some 0"
    and c4: "current_test_id ?ctx = Some ''test1''" and c5: "''test1'' \<noteq> []"
    by simp_all
  have v5: "validate_score ?fl ((\<lambda>s. s) ''5.0'') = Some (Finite 5)"
    and v3: "validate_score ?fl ((\<lambda>s. s) ''3'') = Some (Finite 3)"
    by (simp_all add: validate_score_def)
  have f: "find_result ''result1'' (results_file ?db) = Some (''user1'', ?r)"
    by (simp add: tests_or_empty_def)
  have u: "r_user_id ?r = None" and o: "''user1'' \<noteq> []" by simp_all
  have l: "case ?lt ''test1'' of None \<Rightarrow> True | Some t \<Rightarrow> 0 < length (questions t)"
    by simp
  have e5: "save_score ?fl (\<lambda>s. s) ''uuid1'' ?lt (Some ''5.0'') ?db ?ctx
    = \<lparr>replies = [''score_saved''], next_step = Return_to_previous, raised = None,
        db_after =
         \<lparr>results_file =
            [(''user1'', \<lparr>tests = Some
               [\<lparr>r_id = ''result1'', r_test_id = ''test1'', r_user_id = None,
                r_scores = Some [(''0'', Finite 5)], r_comments = None, r_appeals = Some []\<rparr>]\<rparr>)],
          writes = 1, error_log = []\<rparr>,
        context_after_score =
         \<lparr>current_result_id = Some ''result1'', current_question_idx = Some 0,
          current_test_id = Some ''test1'', test_changes = [(''test1'',
             [\<lparr>change_type = ''score'', student_id = ''user1'', c_test_id = ''test1'',
               c_test_name = ''Test 1'', c_question_idx = 1,
               c_question_text = ''Question 1...'', c_score = Finite 5,
               c_comment = no_comment,
               change_id = Some ''user1_test1_1_score_uuid1''\<rparr>])]\<rparr>\<rparr>"
    by (simp add: save_score_def truthy_def validate_score_def tests_or_empty_def Let_def
        get_user_id_by_result_id_def load_all_results_def add_change_def is_continuation_def
        stored_score_def with_score_def py_eq_def str_nat_0 str_nat_1)
  show ?thesis
    using f e5
      save_score_notifies [where float_of = "?fl" and strip = "\<lambda>s. s" and msg = "''5.0''"
        and score = "Finite 5" and ctx = "?ctx" and db = "?db" and load_test_by_id = "?lt"
        and new_uuid = "''uuid1''" and tid' = "''other''", OF c1 c2 c3 c4 c5 v5 f u o l]
      save_score_notifies [where float_of = "?fl" and strip = "\<lambda>s. s" and msg = "''3''"
        and score = "Finite 3" and ctx = "?ctx" and db = "?db" and load_test_by_id = "?lt"
        and new_uuid = "''uuid1''" and tid' = "''other''", OF c1 c2 c3 c4 c5 v3 f u o l]
    by (simp add: stored_score_def py_eq_def str_nat_0)
qed

section \<open>Properties of the authoring flow\<close>

text \<open>
  C8. \<open>validate_options\<close> accepts exactly when the extra options together with the
  correct answer are between 2 and 7 strings without a repetition. It rejects the option
  A with correct answer A and seven options with an eighth correct answer, and accepts
  the options A, B with correct answer C.
\<close>

theorem validate_options_spec:
  "validate_options opts correct
     = (2 \<le> length (opts @ [correct]) \<and> length (opts @ [correct]) \<le> 7
        \<and> distinct (opts @ [correct]))
   \<and> \<not> validate_options [''A''] ''A''
   \<and> \<not> validate_options [''A'', ''B'', ''C'', ''D'', ''E'', ''F'', ''G''] ''H''
   \<and> validate_options [''A'', ''B''] ''C''"
proof -
  have cd: "(card (set xs) = length xs) = distinct xs" for xs :: "string list"
    using distinct_card card_distinct by blast
  have g: "validate_options os c
     = (2 \<le> length (os @ [c]) \<and> length (os @ [c]) \<le> 7 \<and> distinct (os @ [c]))" for os c
    unfolding validate_options_def Let_def cd [symmetric] by (cases os) auto
  show ?thesis
    by (simp add: g)
qed





end
